theory Spec2Isabelle
  imports Complex_Main "HOL-Library.Monad_Syntax"
begin

section \<open>JavaScript numbers\<close>

text \<open>
  The game computes on JavaScript numbers. They are modelled as real numbers: arithmetic
  is exact, except in \<open>getSpeed\<close> and \<open>limitSpeed\<close>, where every operation is rounded (see
  \<open>fl\<close> below). A division whose divisor is zero leaves the reals (JavaScript yields
  \<open>Infinity\<close> or \<open>NaN\<close>); it is the value \<open>None\<close>, so that every division of the source is a
  checked step of the model.
\<close>

definition js_div :: "real \<Rightarrow> real \<Rightarrow> real option" where
  "js_div a b = (if b = 0 then None else Some (a / b))"

text \<open>\<open>a || d\<close> on a number: zero is falsy and gives the default.\<close>

definition js_or :: "real \<Rightarrow> real \<Rightarrow> real" where
  "js_or a d = (if a = 0 then d else a)"

text \<open>\<open>a || d\<close> on a property that may be \<open>undefined\<close>.\<close>

definition js_or_undef :: "real option \<Rightarrow> real \<Rightarrow> real" where
  "js_or_undef a d = (case a of None \<Rightarrow> d | Some v \<Rightarrow> js_or v d)"

text \<open>\<open>a !== undefined ? a : d\<close>.\<close>

definition js_default :: "real option \<Rightarrow> real \<Rightarrow> real" where
  "js_default a d = (case a of None \<Rightarrow> d | Some v \<Rightarrow> v)"

text \<open>
  \<open>Math.pow\<close> on finite arguments: \<open>x ** 0\<close> is \<open>1\<close> for every \<open>x\<close>; a negative base
  has a power only for an integral exponent (\<open>NaN\<close> otherwise); \<open>0\<close> to a negative
  exponent is \<open>Infinity\<close>.
\<close>

definition js_pow :: "real \<Rightarrow> real \<Rightarrow> real option" where
  "js_pow b e =
     (if e = 0 then Some 1
      else if 0 < b then Some (b powr e)
      else if b = 0 then (if 0 < e then Some 0 else None)
      else if e = of_int \<lfloor>e\<rfloor> then Some (b powi \<lfloor>e\<rfloor>)
      else None)"

text \<open>\<open>a < b\<close> and \<open>a > b\<close> where an operand may be \<open>undefined\<close> or \<open>NaN\<close>: then false.\<close>

definition js_lt :: "real option \<Rightarrow> real option \<Rightarrow> bool" where
  "js_lt a b = (case (a, b) of (Some u, Some v) \<Rightarrow> u < v | _ \<Rightarrow> False)"

definition js_gt :: "real option \<Rightarrow> real option \<Rightarrow> bool" where
  "js_gt a b = js_lt b a"

text \<open>
  \<open>a % n\<close> on array indices (non-negative integers): \<open>NaN\<close> when \<open>n\<close> is \<open>0\<close>, and
  \<open>NaN\<close> is equal to nothing.
\<close>

definition js_mod :: "nat \<Rightarrow> nat \<Rightarrow> nat option" where
  "js_mod a n = (if n = 0 then None else Some (a mod n))"

text \<open>
  Rounding. A JavaScript number is an IEEE 754 binary64 value, and \<open>+\<close>, \<open>*\<close>, \<open>/\<close> and
  \<open>Math.sqrt\<close> return the exact result rounded to the nearest such value, ties to the even
  mantissa. \<open>fl x\<close> is that rounding of the real number \<open>x\<close>: the spacing of the doubles around
  \<open>x\<close> is \<open>2 ^ (e - 52)\<close>, where \<open>2 ^ e \<le> |x| < 2 ^ (e + 1)\<close> and \<open>e\<close> is at least \<open>-1022\<close> (below
  that the doubles are subnormal, with the spacing \<open>2 ^ -1074\<close>). A result of magnitude
  \<open>2 ^ 1024\<close> or more is \<open>Infinity\<close>: \<open>None\<close>. Signed zeros are not distinguished.

  The claims about \<open>limitSpeed\<close> are about the exact value of computed numbers, so
  \<open>getSpeed\<close> and \<open>limitSpeed\<close> are modelled with every operation rounded. The other
  functions compute on exact reals.
\<close>

definition round_half_even :: "real \<Rightarrow> int" where
  "round_half_even r =
     (let f = \<lfloor>r\<rfloor>
      in if r - of_int f < 1 / 2 then f
         else if r - of_int f > 1 / 2 then f + 1
         else if even f then f else f + 1)"

definition binade :: "real \<Rightarrow> int" where
  "binade x = \<lfloor>log 2 \<bar>x\<bar>\<rfloor>"

definition fl :: "real \<Rightarrow> real option" where
  "fl x =
     (if x = 0 then Some 0
      else
        (let q = 2 powi (max (binade x) (- 1022) - 52);
             y = of_int (round_half_even (x / q)) * q
         in if \<bar>y\<bar> \<ge> 2 powi 1024 then None else Some y))"

text \<open>The operations of the source that \<open>getSpeed\<close> and \<open>limitSpeed\<close> use.\<close>

definition fmul :: "real \<Rightarrow> real \<Rightarrow> real option" where
  "fmul a b = fl (a * b)"

definition fadd :: "real \<Rightarrow> real \<Rightarrow> real option" where
  "fadd a b = fl (a + b)"


definition fsqrt :: "real \<Rightarrow> real option" where
  "fsqrt a = (if a < 0 then None else fl (sqrt a))"

text \<open>The unit roundoff of binary64, half the spacing of the doubles in \<open>[1, 2)\<close>.\<close>

definition eps :: real where
  "eps = 2 powi (- 53)"

section \<open>Vectors and sprites\<close>

text \<open>
  A vector \<open>{x, y}\<close>. The coordinate type is a parameter: \<open>real\<close> for finite vectors,
  \<open>real option\<close> where a coordinate may be \<open>NaN\<close> (the result of \<open>0 / 0\<close>).
\<close>

record 'n vec =
  vec_x :: 'n
  vec_y :: 'n

type_synonym vec2 = "real vec"

text \<open>
  The fields of a sprite (sprite.js) that the physics code reads and writes. The Sprite
  constructor always creates \<open>position\<close>, \<open>velocity\<close> and \<open>acceleration\<close>; the properties
  that the code tests against \<open>undefined\<close> or guards with \<open>||\<close> are optional.
\<close>

record sprite =
  position :: vec2
  velocity :: vec2
  acceleration :: vec2
  rotation :: real
  angularVelocity :: "real option"
  friction :: "real option"
  mass :: "real option"
  restitution :: "real option"
  collider_radius :: real
  width :: real
  height :: real
  active :: bool
  sprite_x :: real
  sprite_y :: real

text \<open>A sprite as \<open>new Sprite({position: {x, y}})\<close> makes it, with the given velocity.\<close>

definition example_body :: "real \<Rightarrow> real \<Rightarrow> sprite" where
  "example_body vx vy =
     \<lparr>position = \<lparr>vec_x = 0, vec_y = 0\<rparr>, velocity = \<lparr>vec_x = vx, vec_y = vy\<rparr>,
      acceleration = \<lparr>vec_x = 0, vec_y = 0\<rparr>, rotation = 0, angularVelocity = Some 0,
      friction = Some 0.98, mass = Some 1, restitution = Some 0.5, collider_radius = 20,
      width = 40, height = 40, active = True, sprite_x = 0, sprite_y = 0\<rparr>"

definition scale_vec :: "real \<Rightarrow> vec2 \<Rightarrow> vec2" where
  "scale_vec k v = \<lparr>vec_x = vec_x v * k, vec_y = vec_y v * k\<rparr>"

definition dot :: "vec2 \<Rightarrow> vec2 \<Rightarrow> real" where
  "dot u v = vec_x u * vec_x v + vec_y u * vec_y v"

definition vec_length :: "vec2 \<Rightarrow> real" where
  "vec_length v = sqrt (dot v v)"

section \<open>physics.js\<close>

text \<open>
  \<open>Physics.updatePhysics\<close>: semi-implicit Euler step, then friction as the factor
  \<open>Math.pow(1 - friction, dt)\<close>.
\<close>

definition updatePhysics :: "'a sprite_scheme \<Rightarrow> real \<Rightarrow> 'a sprite_scheme option" where
  "updatePhysics object dt =
     (let v1 = \<lparr>vec_x = vec_x (velocity object) + vec_x (acceleration object) * dt,
                vec_y = vec_y (velocity object) + vec_y (acceleration object) * dt\<rparr>;
          p1 = \<lparr>vec_x = vec_x (position object) + vec_x v1 * dt,
                vec_y = vec_y (position object) + vec_y v1 * dt\<rparr>;
          r1 = (case angularVelocity object of
                  None \<Rightarrow> rotation object
                | Some w \<Rightarrow> rotation object + w * dt);
          o1 = object\<lparr>velocity := v1, position := p1, rotation := r1\<rparr>
      in case friction object of
           None \<Rightarrow> Some o1
         | Some f \<Rightarrow>
             do {
               frictionFactor \<leftarrow> js_pow (1 - f) dt;
               Some (o1\<lparr>velocity := \<lparr>vec_x = vec_x v1 * frictionFactor,
                                      vec_y = vec_y v1 * frictionFactor\<rparr>,
                       angularVelocity := map_option (\<lambda>w. w * frictionFactor) (angularVelocity object)\<rparr>)
             })"

text \<open>
  \<open>Physics.getSpeed\<close> and \<open>Physics.limitSpeed\<close> on an object that has a \<open>velocity\<close>, as every
  sprite has, in binary64 arithmetic. \<open>None\<close>: an intermediate result is not finite (an
  overflow, or the division by a current speed of \<open>0\<close>, which needs a negative \<open>maxSpeed\<close>).
\<close>

definition getSpeed :: "'a sprite_scheme \<Rightarrow> real option" where
  "getSpeed object =
     (let vx = js_or (vec_x (velocity object)) 0;
          vy = js_or (vec_y (velocity object)) 0
      in do {
           xx \<leftarrow> fmul vx vx;
           yy \<leftarrow> fmul vy vy;
           s \<leftarrow> fadd xx yy;
           fsqrt s
         })"


text \<open>
  A collision result: \<open>{colliding: false}\<close> has no other property; a colliding result has
  \<open>normal\<close>, \<open>overlap\<close> and \<open>point\<close>. The coordinate type of the normal is \<open>real\<close> where
  every division is guarded, \<open>real option\<close> where a coordinate may be \<open>NaN\<close>.
\<close>

record 'n collision =
  colliding :: bool
  normal :: "'n vec option"
  overlap :: "real option"
  point :: "vec2 option"

definition no_collision :: "'n collision" where
  "no_collision = \<lparr>colliding = False, normal = None, overlap = None, point = None\<rparr>"

text \<open>The argument of \<open>checkCircleCollision\<close>: \<open>{position: {x, y}, radius}\<close>.\<close>

record circle =
  circle_position :: "vec2 option"
  circle_radius :: "real option"

definition mk_circle :: "real \<Rightarrow> real \<Rightarrow> real \<Rightarrow> circle" where
  "mk_circle cx cy r = \<lparr>circle_position = Some \<lparr>vec_x = cx, vec_y = cy\<rparr>, circle_radius = Some r\<rparr>"

text \<open>
  \<open>Physics.checkCircleCollision\<close>. The arguments may be absent (\<open>!a || !b\<close>), and so may
  their positions. \<open>None\<close> as the result: a division by zero happened.
\<close>

definition checkCircleCollision :: "circle option \<Rightarrow> circle option \<Rightarrow> real collision option" where
  "checkCircleCollision a b =
     (case (a, b) of
        (Some ca, Some cb) \<Rightarrow>
          (case (circle_position ca, circle_position cb) of
             (Some pa, Some pb) \<Rightarrow>
               (let dx = vec_x pb - vec_x pa;
                    dy = vec_y pb - vec_y pa;
                    distance = sqrt (dx * dx + dy * dy);
                    minDistance = js_or_undef (circle_radius ca) 0 + js_or_undef (circle_radius cb) 0
                in if distance < minDistance then
                     do {
                       nx \<leftarrow> js_div dx (js_or distance 1);
                       ny \<leftarrow> js_div dy (js_or distance 1);
                       Some \<lparr>colliding = True,
                             normal = Some \<lparr>vec_x = nx, vec_y = ny\<rparr>,
                             overlap = Some (minDistance - distance),
                             point = Some \<lparr>vec_x = vec_x pa + nx * js_or_undef (circle_radius ca) 0,
                                           vec_y = vec_y pa + ny * js_or_undef (circle_radius ca) 0\<rparr>\<rparr>
                     }
                   else Some no_collision)
           | _ \<Rightarrow> Some no_collision)
      | _ \<Rightarrow> Some no_collision)"

text \<open>
  \<open>Physics.resolveCollision\<close> on two sprites and a collision result. The result is the pair
  of updated sprites; \<open>None\<close>: a division by zero happened (masses that cancel).
\<close>

definition relVelDot :: "'a sprite_scheme \<Rightarrow> 'b sprite_scheme \<Rightarrow> real collision \<Rightarrow> real" where
  "relVelDot a b c =
     (let relVelX = vec_x (velocity a) - vec_x (velocity b);
          relVelY = vec_y (velocity a) - vec_y (velocity b);
          n = (case normal c of None \<Rightarrow> \<lparr>vec_x = 0, vec_y = 0\<rparr> | Some v \<Rightarrow> v)
      in relVelX * vec_x n + relVelY * vec_y n)"

definition resolveCollision ::
  "'a sprite_scheme \<Rightarrow> 'b sprite_scheme \<Rightarrow> real collision
     \<Rightarrow> ('a sprite_scheme \<times> 'b sprite_scheme) option" where
  "resolveCollision a b c =
     (let n = (case normal c of None \<Rightarrow> \<lparr>vec_x = 0, vec_y = 0\<rparr> | Some v \<Rightarrow> v);
          dotProduct = relVelDot a b c
      in if dotProduct > 0 then Some (a, b)
         else
           (let e = min (js_default (restitution a) 0.5) (js_default (restitution b) 0.5);
                ma = js_or_undef (mass a) 1;
                mb = js_or_undef (mass b) 1
            in do {
                 inv_ma \<leftarrow> js_div 1 ma;
                 inv_mb \<leftarrow> js_div 1 mb;
                 impulseMag \<leftarrow> js_div (- (1 + e) * dotProduct) (inv_ma + inv_mb);
                 let impulseX = impulseMag * vec_x n;
                 let impulseY = impulseMag * vec_y n;
                 dvax \<leftarrow> js_div impulseX ma;
                 dvay \<leftarrow> js_div impulseY ma;
                 dvbx \<leftarrow> js_div impulseX mb;
                 dvby \<leftarrow> js_div impulseY mb;
                 let a1 = a\<lparr>velocity := \<lparr>vec_x = vec_x (velocity a) + dvax,
                                           vec_y = vec_y (velocity a) + dvay\<rparr>\<rparr>;
                 let b1 = b\<lparr>velocity := \<lparr>vec_x = vec_x (velocity b) - dvbx,
                                           vec_y = vec_y (velocity b) - dvby\<rparr>\<rparr>;
                 (case overlap c of
                    None \<Rightarrow> Some (a1, b1)
                  | Some ov \<Rightarrow>
                      if ov = 0 then Some (a1, b1)
                      else
                        (let percent = 0.2; correction = ov * percent
                         in do {
                              pax \<leftarrow> js_div (vec_x n * correction * mb) (ma + mb);
                              pay \<leftarrow> js_div (vec_y n * correction * mb) (ma + mb);
                              pbx \<leftarrow> js_div (vec_x n * correction * ma) (ma + mb);
                              pby \<leftarrow> js_div (vec_y n * correction * ma) (ma + mb);
                              Some (a1\<lparr>position := \<lparr>vec_x = vec_x (position a) + pax,
                                                      vec_y = vec_y (position a) + pay\<rparr>\<rparr>,
                                    b1\<lparr>position := \<lparr>vec_x = vec_x (position b) - pbx,
                                                      vec_y = vec_y (position b) - pby\<rparr>\<rparr>)
                            }))
               }))"

section \<open>sprite.js\<close>

text \<open>
  \<open>Sprite.update(deltaTime)\<close>, the integration step that \<open>Potato.update\<close> runs
  (\<open>super.update(deltaTime)\<close>). \<open>deltaTime\<close> is \<open>None\<close> when it is not a number. The
  friction step is \<open>this.velocity.x *= friction\<close>: the factor is \<open>this.friction\<close> itself.
\<close>

definition Sprite_update :: "real option \<Rightarrow> 'a sprite_scheme \<Rightarrow> 'a sprite_scheme" where
  "Sprite_update deltaTime this =
     (if \<not> active this then this
      else
        (let dt = js_default deltaTime (1 / 60);
             v1 = \<lparr>vec_x = vec_x (velocity this) + vec_x (acceleration this) * dt,
                   vec_y = vec_y (velocity this) + vec_y (acceleration this) * dt\<rparr>;
             p1 = \<lparr>vec_x = vec_x (position this) + vec_x v1 * dt,
                   vec_y = vec_y (position this) + vec_y v1 * dt\<rparr>;
             r1 = (case angularVelocity this of
                     None \<Rightarrow> rotation this
                   | Some w \<Rightarrow> rotation this + w * dt);
             f = js_default (friction this) 0.98
         in this\<lparr>velocity := \<lparr>vec_x = vec_x v1 * f, vec_y = vec_y v1 * f\<rparr>,
                 position := p1,
                 rotation := r1,
                 sprite_x := vec_x p1,
                 sprite_y := vec_y p1,
                 acceleration := \<lparr>vec_x = 0, vec_y = 0\<rparr>\<rparr>))"

text \<open>
  A racer on asphalt: \<open>Potato.updateTerrainEffects\<close> sets \<open>friction\<close> to the terrain's
  \<open>0.1\<close> plus \<open>BASE_FRICTION = 0.05\<close>.
\<close>

definition asphalt_body :: sprite where
  "asphalt_body = (example_body 1 0)\<lparr>friction := Some 0.15\<rparr>"

section \<open>track.js\<close>

text \<open>
  A boundary segment \<open>{start, end}\<close> and a checkpoint hitbox
  \<open>{start, end, index, isFinishLine}\<close>. Points are \<open>{x, y}\<close> objects with both coordinates,
  as \<open>createBoundarySegments\<close> and \<open>createCheckpointHitboxes\<close> build them.
\<close>

record segment =
  seg_start :: vec2
  seg_end :: vec2

record hitbox = segment +
  index :: nat
  isFinishLine :: bool

record checkpoint_data =
  cp_x :: real
  cp_y :: real
  cp_angle :: "real option"
  cp_width :: "real option"

record track =
  innerBoundary :: "vec2 list"
  outerBoundary :: "vec2 list"
  checkpoints :: "checkpoint_data list"
  innerBoundarySegments :: "segment list"
  outerBoundarySegments :: "segment list"
  checkpointHitboxes :: "hitbox list"

definition createBoundarySegments :: "vec2 list \<Rightarrow> segment list" where
  "createBoundarySegments boundary =
     (if length boundary < 2 then []
      else map (\<lambda>i. \<lparr>seg_start = boundary ! i,
                       seg_end = boundary ! ((i + 1) mod length boundary)\<rparr>)
               [0..<length boundary])"

definition createCheckpointHitboxes :: "checkpoint_data list \<Rightarrow> hitbox list" where
  "createCheckpointHitboxes cps =
     map (\<lambda>(i, checkpoint).
            let w = js_or_undef (cp_width checkpoint) 50;
                angle = js_or_undef (cp_angle checkpoint) 0;
                angleRad = angle * (pi / 180);
                halfWidth = w / 2
            in \<lparr>seg_start = \<lparr>vec_x = cp_x checkpoint - cos angleRad * halfWidth,
                              vec_y = cp_y checkpoint - sin angleRad * halfWidth\<rparr>,
                seg_end = \<lparr>vec_x = cp_x checkpoint + cos angleRad * halfWidth,
                            vec_y = cp_y checkpoint + sin angleRad * halfWidth\<rparr>,
                index = i,
                isFinishLine = (i = 0)\<rparr>)
         (enumerate 0 cps)"

text \<open>The part of the \<open>Track\<close> constructor that builds the collision geometry.\<close>

definition Track :: "vec2 list \<Rightarrow> vec2 list \<Rightarrow> checkpoint_data list \<Rightarrow> track" where
  "Track inner outer cps =
     \<lparr>innerBoundary = inner, outerBoundary = outer, checkpoints = cps,
      innerBoundarySegments = createBoundarySegments inner,
      outerBoundarySegments = createBoundarySegments outer,
      checkpointHitboxes = createCheckpointHitboxes cps\<rparr>"

definition pointToLineDistance :: "vec2 \<Rightarrow> vec2 \<Rightarrow> vec2 \<Rightarrow> real" where
  "pointToLineDistance pt lineStart lineEnd =
     (let A = vec_x pt - vec_x lineStart;
          B = vec_y pt - vec_y lineStart;
          C = vec_x lineEnd - vec_x lineStart;
          D = vec_y lineEnd - vec_y lineStart;
          dt = A * C + B * D;
          lenSq = C * C + D * D;
          param = (if lenSq \<noteq> 0 then dt / lenSq else - 1);
          xx = (if param < 0 then vec_x lineStart
                else if param > 1 then vec_x lineEnd
                else vec_x lineStart + param * C);
          yy = (if param < 0 then vec_y lineStart
                else if param > 1 then vec_y lineEnd
                else vec_y lineStart + param * D);
          dx = vec_x pt - xx;
          dy = vec_y pt - yy
      in sqrt (dx * dx + dy * dy))"

text \<open>
  \<open>Track.lineCircleCollision\<close>. The normal is divided by its length without a guard: when
  the circle's centre lies on the segment, both coordinates are \<open>0 / 0\<close>, that is \<open>None\<close>.
\<close>

definition lineCircleCollision ::
  "vec2 \<Rightarrow> vec2 \<Rightarrow> vec2 \<Rightarrow> real \<Rightarrow> real option collision" where
  "lineCircleCollision lineStart lineEnd circlePos radius =
     (let distance = pointToLineDistance circlePos lineStart lineEnd
      in if distance \<ge> radius then no_collision
         else
           (let A = vec_x circlePos - vec_x lineStart;
                B = vec_y circlePos - vec_y lineStart;
                C = vec_x lineEnd - vec_x lineStart;
                D = vec_y lineEnd - vec_y lineStart;
                dt = A * C + B * D;
                lenSq = C * C + D * D;
                param = (if lenSq \<noteq> 0 then dt / lenSq else - 1);
                closestPoint =
                  (if param < 0 then \<lparr>vec_x = vec_x lineStart, vec_y = vec_y lineStart\<rparr>
                   else if param > 1 then \<lparr>vec_x = vec_x lineEnd, vec_y = vec_y lineEnd\<rparr>
                   else \<lparr>vec_x = vec_x lineStart + param * C,
                         vec_y = vec_y lineStart + param * D\<rparr>);
                normalX = vec_x circlePos - vec_x closestPoint;
                normalY = vec_y circlePos - vec_y closestPoint;
                normalLength = sqrt (normalX * normalX + normalY * normalY)
            in \<lparr>colliding = True,
                normal = Some \<lparr>vec_x = js_div normalX normalLength,
                                vec_y = js_div normalY normalLength\<rparr>,
                overlap = Some (radius - distance),
                point = Some closestPoint\<rparr>))"

text \<open>
  \<open>Track.checkBoundaryCollision\<close>: the loop over the inner, then the outer segments, with
  the collision kept so far as its state.
\<close>

definition initialClosest :: "real option collision" where
  "initialClosest =
     \<lparr>colliding = False, normal = Some \<lparr>vec_x = Some 0, vec_y = Some 0\<rparr>,
      overlap = Some 0, point = None\<rparr>"

fun boundaryLoop ::
  "segment list \<Rightarrow> vec2 \<Rightarrow> real \<Rightarrow> real option collision \<Rightarrow> real option collision" where
  "boundaryLoop [] pos radius closestCollision = closestCollision"
| "boundaryLoop (seg # segs) pos radius closestCollision =
     (let c = lineCircleCollision (seg_start seg) (seg_end seg) pos radius
      in boundaryLoop segs pos radius
           (if colliding c \<and>
               (\<not> colliding closestCollision \<or> js_gt (overlap c) (overlap closestCollision))
            then c else closestCollision))"

definition checkBoundaryCollision :: "track \<Rightarrow> 'a sprite_scheme \<Rightarrow> real option collision" where
  "checkBoundaryCollision trk sprite =
     boundaryLoop (innerBoundarySegments trk @ outerBoundarySegments trk)
       (position sprite) (collider_radius sprite) initialClosest"

text \<open>
  \<open>Track.checkCheckpoint\<close>: the first hitbox within \<open>radius\<close> of the point; \<open>None\<close> is the
  result \<open>{hit: false}\<close>.
\<close>

record checkpoint_hit =
  hit_index :: nat
  hit_isFinishLine :: bool

fun checkCheckpointLoop :: "hitbox list \<Rightarrow> vec2 \<Rightarrow> real \<Rightarrow> checkpoint_hit option" where
  "checkCheckpointLoop [] pt radius = None"
| "checkCheckpointLoop (cp # cps) pt radius =
     (if pointToLineDistance pt (seg_start cp) (seg_end cp) < radius
      then Some \<lparr>hit_index = index cp, hit_isFinishLine = isFinishLine cp\<rparr>
      else checkCheckpointLoop cps pt radius)"

definition checkCheckpoint :: "track \<Rightarrow> real \<Rightarrow> real \<Rightarrow> real \<Rightarrow> checkpoint_hit option" where
  "checkCheckpoint trk px py radius =
     checkCheckpointLoop (checkpointHitboxes trk) \<lparr>vec_x = px, vec_y = py\<rparr> radius"

section \<open>config.js\<close>

text \<open>
  The tables of \<open>CONFIG\<close> that potato.js reads: \<open>CONFIG.POWERUPS\<close> as the list of its keys
  in source order (a \<open>for ... in\<close> loop visits them so), \<open>CONFIG.BALANCE.LAP_HEALTH_BONUS\<close>
  and \<open>CONFIG.MODES.GRAND_PRIX.laps\<close>.
\<close>

record powerup_def =
  pid :: string
  duration :: real
  strength :: real
  respawnTime :: real

definition SPEED_BOOST :: powerup_def where
  "SPEED_BOOST = \<lparr>pid = ''boost'', duration = 3000, strength = 1.5, respawnTime = 10000\<rparr>"

definition SHIELD :: powerup_def where
  "SHIELD = \<lparr>pid = ''shield'', duration = 5000, strength = 1.0, respawnTime = 15000\<rparr>"

definition GHOST :: powerup_def where
  "GHOST = \<lparr>pid = ''ghost'', duration = 3000, strength = 1.0, respawnTime = 20000\<rparr>"

definition OIL_SLICK :: powerup_def where
  "OIL_SLICK = \<lparr>pid = ''oil'', duration = 5000, strength = 1.0, respawnTime = 15000\<rparr>"

definition SIZE_REDUCTION :: powerup_def where
  "SIZE_REDUCTION = \<lparr>pid = ''shrink'', duration = 4000, strength = 0.75, respawnTime = 20000\<rparr>"

definition CONFIG_POWERUPS :: "(string \<times> powerup_def) list" where
  "CONFIG_POWERUPS =
     [(''SPEED_BOOST'', SPEED_BOOST), (''SHIELD'', SHIELD), (''GHOST'', GHOST),
      (''OIL_SLICK'', OIL_SLICK), (''SIZE_REDUCTION'', SIZE_REDUCTION)]"

definition LAP_HEALTH_BONUS :: real where
  "LAP_HEALTH_BONUS = 20"

definition GRAND_PRIX_laps :: nat where
  "GRAND_PRIX_laps = 3"

section \<open>potato.js\<close>

text \<open>An entry of \<open>activePowerups\<close>: \<open>{type, timeRemaining}\<close>.\<close>

record powerup =
  ptype :: string
  timeRemaining :: real

text \<open>
  A potato is a sprite with race and power-up state. \<open>lapStartTime\<close>, \<open>bestLapTime\<close> and
  \<open>lastCheckpointTime\<close> are not set by the constructor: they are \<open>undefined\<close> until
  assigned.
\<close>

record potato = sprite +
  topSpeed :: real
  checkpoint :: nat
  lap :: nat
  health :: real
  finished :: bool
  lapStartTime :: "real option"
  bestLapTime :: "real option"
  lastCheckpointTime :: "real option"
  activePowerups :: "powerup list"
  isShielded :: bool

text \<open>
  The state that \<open>new Potato({x, y, type})\<close> builds, \<open>ts\<close> being the top speed of the potato
  type: the Sprite constructor's defaults, then the Potato constructor's assignments.
\<close>

definition Potato :: "real \<Rightarrow> real \<Rightarrow> real \<Rightarrow> potato" where
  "Potato px py ts =
     \<lparr>position = \<lparr>vec_x = px, vec_y = py\<rparr>, velocity = \<lparr>vec_x = 0, vec_y = 0\<rparr>,
      acceleration = \<lparr>vec_x = 0, vec_y = 0\<rparr>, rotation = 0, angularVelocity = Some 0,
      friction = Some 0.05, mass = Some 1, restitution = Some 0.5, collider_radius = 25,
      width = 40, height = 60, active = True, sprite_x = px, sprite_y = py,
      topSpeed = ts, checkpoint = 0, lap = 0, health = 100, finished = False,
      lapStartTime = None, bestLapTime = None, lastCheckpointTime = None,
      activePowerups = [], isShielded = False\<rparr>"

text \<open>
  \<open>Potato.completeLap\<close>. \<open>t1\<close> and \<open>t2\<close> are the two readings of \<open>Date.now()\<close>. The lap time is
  \<open>NaN\<close> (\<open>None\<close>) while \<open>lapStartTime\<close> is \<open>undefined\<close>.
\<close>

definition completeLap :: "real \<Rightarrow> real \<Rightarrow> potato \<Rightarrow> potato" where
  "completeLap t1 t2 this =
     (let lapTime = map_option (\<lambda>s. t1 - s) (lapStartTime this);
          p1 = (if js_lt lapTime (bestLapTime this) then this\<lparr>bestLapTime := lapTime\<rparr> else this);
          p2 = p1\<lparr>lapStartTime := Some t2\<rparr>;
          p3 = p2\<lparr>lap := lap p2 + 1\<rparr>;
          p4 = p3\<lparr>health := min (health p3 + LAP_HEALTH_BONUS) 100\<rparr>
      in if lap p4 > GRAND_PRIX_laps then p4\<lparr>finished := True\<rparr> else p4)"

text \<open>
  \<open>Potato.updateRaceProgress\<close>, in two parts: \<open>raceProgressOnHit\<close> is the body of the method
  after the call of \<open>track.checkCheckpoint\<close>, for \<open>n = track.checkpoints.length\<close> and the
  result \<open>cp\<close> of that call; \<open>t0\<close>, \<open>t1\<close>, \<open>t2\<close> are the readings of \<open>Date.now()\<close>.
\<close>

definition raceProgressOnHit ::
  "nat \<Rightarrow> checkpoint_hit option \<Rightarrow> real \<Rightarrow> real \<Rightarrow> real \<Rightarrow> potato \<Rightarrow> potato" where
  "raceProgressOnHit n cp t0 t1 t2 this =
     (case cp of
        None \<Rightarrow> this
      | Some h \<Rightarrow>
          if Some (hit_index h) = js_mod (checkpoint this + 1) n then
            (let p1 = this\<lparr>checkpoint := hit_index h, lastCheckpointTime := Some t0\<rparr>
             in if hit_index h = 0 \<and> lap p1 > 0 then completeLap t1 t2 p1
                else if hit_index h = 0 then p1\<lparr>lap := 1, lapStartTime := Some t1\<rparr>
                else p1)
          else this)"

definition updateRaceProgress :: "track \<Rightarrow> real \<Rightarrow> real \<Rightarrow> real \<Rightarrow> potato \<Rightarrow> potato" where
  "updateRaceProgress trk t0 t1 t2 this =
     raceProgressOnHit (length (checkpoints trk))
       (checkCheckpoint trk (vec_x (position this)) (vec_y (position this)) (width this / 2))
       t0 t1 t2 this"

text \<open>
  A sequence of checkpoint hits: each event is a result of \<open>checkCheckpoint\<close> with the clock
  readings of that call. \<open>progressTrace\<close> lists the racer's states, the first being the
  state before the first event; \<open>progressRun\<close> is the state after the last.
\<close>

record progress_event =
  ev_hit :: "checkpoint_hit option"
  ev_t0 :: real
  ev_t1 :: real
  ev_t2 :: real

definition progressStep :: "nat \<Rightarrow> progress_event \<Rightarrow> potato \<Rightarrow> potato" where
  "progressStep n ev this = raceProgressOnHit n (ev_hit ev) (ev_t0 ev) (ev_t1 ev) (ev_t2 ev) this"

fun progressRun :: "nat \<Rightarrow> progress_event list \<Rightarrow> potato \<Rightarrow> potato" where
  "progressRun n [] this = this"
| "progressRun n (ev # evs) this = progressRun n evs (progressStep n ev this)"

fun progressTrace :: "nat \<Rightarrow> progress_event list \<Rightarrow> potato \<Rightarrow> potato list" where
  "progressTrace n [] this = [this]"
| "progressTrace n (ev # evs) this = this # progressTrace n evs (progressStep n ev this)"

definition hitEvent :: "nat \<Rightarrow> progress_event" where
  "hitEvent i = \<lparr>ev_hit = Some \<lparr>hit_index = i, hit_isFinishLine = (i = 0)\<rparr>,
                 ev_t0 = 0, ev_t1 = 0, ev_t2 = 0\<rparr>"

text \<open>\<open>Potato.getPowerupDuration\<close>: the loop over the keys of \<open>CONFIG.POWERUPS\<close>.\<close>

fun durationLoop :: "(string \<times> powerup_def) list \<Rightarrow> string \<Rightarrow> real" where
  "durationLoop [] ty = 3000"
| "durationLoop ((key, d) # rest) ty = (if pid d = ty then duration d else durationLoop rest ty)"

definition getPowerupDuration :: "string \<Rightarrow> real" where
  "getPowerupDuration ty = durationLoop CONFIG_POWERUPS ty"

text \<open>\<open>Array.prototype.findIndex\<close>: the first index whose element satisfies the test.\<close>

fun findIndex :: "('a \<Rightarrow> bool) \<Rightarrow> 'a list \<Rightarrow> nat option" where
  "findIndex P [] = None"
| "findIndex P (x # xs) = (if P x then Some 0 else map_option Suc (findIndex P xs))"

text \<open>\<open>Sprite.getDirection\<close>.\<close>

definition getDirection :: "'a sprite_scheme \<Rightarrow> vec2" where
  "getDirection this = \<lparr>vec_x = cos (rotation this), vec_y = sin (rotation this)\<rparr>"

text \<open>
  \<open>Potato.addPowerup\<close>: the updated potato and the returned value, which is the oil slick to
  create or \<open>null\<close>.
\<close>

record oil_slick =
  slick_type :: string
  slick_position :: vec2
  slick_radius :: real
  slick_duration :: real

definition addPowerup :: "string \<Rightarrow> potato \<Rightarrow> potato \<times> oil_slick option" where
  "addPowerup ty this =
     (let p1 = (case findIndex (\<lambda>p. ptype p = ty) (activePowerups this) of
                  Some i \<Rightarrow>
                    this\<lparr>activePowerups :=
                      (activePowerups this)
                        [i := (activePowerups this ! i)\<lparr>timeRemaining := getPowerupDuration ty\<rparr>]\<rparr>
                | None \<Rightarrow>
                    this\<lparr>activePowerups :=
                      activePowerups this @ [\<lparr>ptype = ty, timeRemaining = getPowerupDuration ty\<rparr>]\<rparr>)
      in if ty = pid OIL_SLICK then
           (let direction = getDirection p1
            in (p1, Some \<lparr>slick_type = pid OIL_SLICK,
                          slick_position =
                            \<lparr>vec_x = vec_x (position p1) - vec_x direction * width p1,
                             vec_y = vec_y (position p1) - vec_y direction * width p1\<rparr>,
                          slick_radius = 40,
                          slick_duration = duration OIL_SLICK\<rparr>))
         else (p1, None))"

text \<open>
  \<open>Potato.useActivePowerup\<close>. \<open>find\<close> returns the first oil-slick entry, and the filter
  \<open>p !== oilSlickPowerup\<close> removes that very object, the entry at its index.
\<close>

definition useActivePowerup :: "potato \<Rightarrow> potato \<times> oil_slick option" where
  "useActivePowerup this =
     (case findIndex (\<lambda>p. ptype p = pid OIL_SLICK) (activePowerups this) of
        Some i \<Rightarrow>
          (let (p1, result) = addPowerup (pid OIL_SLICK) this
           in (p1\<lparr>activePowerups := take i (activePowerups p1) @ drop (Suc i) (activePowerups p1)\<rparr>,
               result))
      | None \<Rightarrow> (this, None))"

text \<open>\<open>Potato.updatePowerups\<close>.\<close>

definition updatePowerups :: "real \<Rightarrow> potato \<Rightarrow> potato" where
  "updatePowerups deltaTime this =
     (let aps = filter (\<lambda>p. timeRemaining p > 0)
                  (map (\<lambda>p. p\<lparr>timeRemaining := timeRemaining p - deltaTime * 1000\<rparr>)
                     (activePowerups this));
          shielded = list_ex (\<lambda>p. ptype p = pid SHIELD) aps;
          hasSizeReduction = list_ex (\<lambda>p. ptype p = pid SIZE_REDUCTION) aps;
          p1 = this\<lparr>activePowerups := aps, isShielded := shielded\<rparr>
      in if hasSizeReduction
         then p1\<lparr>width := 30, height := 22.5, collider_radius := 15\<rparr>
         else p1\<lparr>width := 40, height := 30, collider_radius := 20\<rparr>)"

text \<open>
  Two of the other methods of \<open>Potato\<close>, and \<open>Sprite.applyForce\<close>: they assign \<open>health\<close> and
  \<open>acceleration\<close> only. \<open>Helpers.clamp(v, lo, hi)\<close> is \<open>Math.max(lo, Math.min(hi, v))\<close>, and
  \<open>CONFIG.BALANCE.HEALTH_REGEN\<close> is \<open>0.5\<close>.
\<close>

definition clamp :: "real \<Rightarrow> real \<Rightarrow> real \<Rightarrow> real" where
  "clamp v lo hi = max lo (min hi v)"

definition HEALTH_REGEN :: real where
  "HEALTH_REGEN = 0.5"

definition applyDamage :: "real \<Rightarrow> potato \<Rightarrow> potato" where
  "applyDamage amount this =
     (if \<not> isShielded this
      then (let p1 = this\<lparr>health := health this - amount\<rparr>
            in p1\<lparr>health := clamp (health p1) 0 100\<rparr>)
      else this)"

definition regenerateHealth :: "real \<Rightarrow> potato \<Rightarrow> potato" where
  "regenerateHealth deltaTime this =
     (if health this < 100
      then (let p1 = this\<lparr>health := health this + HEALTH_REGEN * deltaTime\<rparr>
            in p1\<lparr>health := min (health p1) 100\<rparr>)
      else this)"

definition applyForce :: "real \<Rightarrow> real \<Rightarrow> 'a sprite_scheme \<Rightarrow> 'a sprite_scheme" where
  "applyForce forceX forceY this =
     (let m = js_or_undef (mass this) 1
      in this\<lparr>acceleration := \<lparr>vec_x = vec_x (acceleration this) + forceX / m,
                                 vec_y = vec_y (acceleration this) + forceY / m\<rparr>\<rparr>)"

text \<open>
  The states a racer can be in. \<open>activePowerups\<close> is assigned by the constructor and by
  \<open>addPowerup\<close>, \<open>useActivePowerup\<close> and \<open>updatePowerups\<close>, and by nothing else in potato.js or
  sprite.js: \<open>handleControls\<close>, \<open>updateTerrainEffects\<close>, \<open>checkTrackBoundaries\<close>,
  \<open>checkPotatoCollisions\<close>, \<open>applyDamage\<close>, \<open>regenerateHealth\<close>, \<open>updateRaceProgress\<close>,
  \<open>Sprite.update\<close> and \<open>limitSpeed\<close> change position, velocity, rotation, health, terrain and
  race state only (and call \<open>useActivePowerup\<close>). Rule \<open>reach_other\<close> stands for all of them:
  it admits every change of the racer that leaves \<open>activePowerups\<close> as it is, so the
  reachable states include racers of any position, velocity, rotation and health.
\<close>

inductive reachable :: "potato \<Rightarrow> bool" where
  reach_new: "reachable (Potato px py ts)"
| reach_add: "reachable this \<Longrightarrow> reachable (fst (addPowerup ty this))"
| reach_use: "reachable this \<Longrightarrow> reachable (fst (useActivePowerup this))"
| reach_update: "reachable this \<Longrightarrow> reachable (updatePowerups deltaTime this)"
| reach_other: "reachable this \<Longrightarrow> activePowerups this' = activePowerups this \<Longrightarrow> reachable this'"

section \<open>Auxiliary notions and example values\<close>

text \<open>The centre of a circle argument, when there is one, and the zero vector.\<close>

definition centre :: "circle option \<Rightarrow> vec2 option" where
  "centre a = (case a of None \<Rightarrow> None | Some c \<Rightarrow> circle_position c)"

definition zero_vec :: vec2 where
  "zero_vec = \<lparr>vec_x = 0, vec_y = 0\<rparr>"

text \<open>
  A sprite at a given position with a given velocity, and a collision result with a given
  normal and overlap.
\<close>

definition body_at :: "real \<Rightarrow> real \<Rightarrow> real \<Rightarrow> real \<Rightarrow> sprite" where
  "body_at px py vx vy = (example_body vx vy)\<lparr>position := \<lparr>vec_x = px, vec_y = py\<rparr>\<rparr>"

definition contact :: "real \<Rightarrow> real \<Rightarrow> real \<Rightarrow> real collision" where
  "contact nx ny ov = \<lparr>colliding = True, normal = Some \<lparr>vec_x = nx, vec_y = ny\<rparr>,
      overlap = Some ov, point = Some \<lparr>vec_x = 0, vec_y = 0\<rparr>\<rparr>"

text \<open>
  Comparison of two collision results by overlap, the segments of a track in the order of
  the loop, and the collision of a sprite's circle with one segment.
\<close>

definition overlap_le :: "'n collision \<Rightarrow> 'n collision \<Rightarrow> bool" where
  "overlap_le c c' = (case (overlap c, overlap c') of (Some u, Some v) \<Rightarrow> u \<le> v | _ \<Rightarrow> False)"

definition boundarySegments :: "track \<Rightarrow> segment list" where
  "boundarySegments trk = innerBoundarySegments trk @ outerBoundarySegments trk"

definition segmentCollision :: "'a sprite_scheme \<Rightarrow> segment \<Rightarrow> real option collision" where
  "segmentCollision sprite seg =
     lineCircleCollision (seg_start seg) (seg_end seg) (position sprite) (collider_radius sprite)"

text \<open>Example values: a segment, a racer of radius \<open>3\<close> at the origin, a track of two walls.\<close>

definition mk_segment :: "real \<Rightarrow> real \<Rightarrow> real \<Rightarrow> real \<Rightarrow> segment" where
  "mk_segment ax ay bx by = \<lparr>seg_start = \<lparr>vec_x = ax, vec_y = ay\<rparr>, seg_end = \<lparr>vec_x = bx, vec_y = by\<rparr>\<rparr>"

text \<open>A colliding result carries its overlap (the loop's invariant on the kept collision).\<close>

definition has_overlap :: "'n collision \<Rightarrow> bool" where
  "has_overlap c = (colliding c \<longrightarrow> overlap c \<noteq> None)"

definition small_racer :: sprite where
  "small_racer = (example_body 0 0)\<lparr>collider_radius := 3\<rparr>"

definition two_wall_track :: track where
  "two_wall_track =
     \<lparr>innerBoundary = [], outerBoundary = [], checkpoints = [],
      innerBoundarySegments = [mk_segment 2 (- 10) 2 10],
      outerBoundarySegments = [mk_segment (- 10) 1 10 1],
      checkpointHitboxes = []\<rparr>"

text \<open>The kinds of the power-ups a racer holds, in the order of \<open>activePowerups\<close>.\<close>

definition kinds :: "potato \<Rightarrow> string list" where
  "kinds this = map ptype (activePowerups this)"

text \<open>An example racer that has just collected a size reduction.\<close>

definition shrunk_potato :: potato where
  "shrunk_potato = fst (addPowerup ''shrink'' (Potato 0 0 5))"

text \<open>
  The test of \<open>updateRaceProgress\<close>: the event is a hit, and its index is
  \<open>(this.checkpoint + 1) % track.checkpoints.length\<close>.
\<close>

definition inSequence :: "nat \<Rightarrow> progress_event \<Rightarrow> potato \<Rightarrow> bool" where
  "inSequence n ev this =
     (case ev_hit ev of
        None \<Rightarrow> False
      | Some h \<Rightarrow> Some (hit_index h) = js_mod (checkpoint this + 1) n)"

text \<open>
  The normal that \<open>resolveCollision\<close> uses (\<open>collision.normal || {x: 0, y: 0}\<close>), the overlap
  it corrects (none when \<open>collision.overlap\<close> is absent or \<open>0\<close>), a sprite moved along a vector,
  and a sprite at rest with a given mass.
\<close>

definition collisionNormal :: "real collision \<Rightarrow> vec2" where
  "collisionNormal c = (case normal c of None \<Rightarrow> \<lparr>vec_x = 0, vec_y = 0\<rparr> | Some v \<Rightarrow> v)"

definition penetration :: "real collision \<Rightarrow> real" where
  "penetration c = (case overlap c of None \<Rightarrow> 0 | Some ov \<Rightarrow> ov)"

definition moved :: "vec2 \<Rightarrow> real \<Rightarrow> 'a sprite_scheme \<Rightarrow> 'a sprite_scheme" where
  "moved n k this =
     this\<lparr>position := \<lparr>vec_x = vec_x (position this) + vec_x n * k,
                        vec_y = vec_y (position this) + vec_y n * k\<rparr>\<rparr>"

definition heavy_body_at :: "real \<Rightarrow> real \<Rightarrow> real \<Rightarrow> sprite" where
  "heavy_body_at px py m = (body_at px py 0 0)\<lparr>mass := Some m\<rparr>"

text \<open>
  A racer in mid-race: it collected a speed boost and a shield one second ago, and since
  then it has moved and taken damage.
\<close>

definition racing_potato :: potato where
  "racing_potato =
     (updatePowerups 1 (fst (addPowerup ''shield'' (fst (addPowerup ''boost'' (Potato 0 0 5))))))
       \<lparr>position := \<lparr>vec_x = 120, vec_y = 80\<rparr>, velocity := \<lparr>vec_x = 3, vec_y = 4\<rparr>,
        rotation := 1, health := 80\<rparr>"

text \<open>
  Notions for the rounding analysis of \<open>limitSpeed\<close>. \<open>in_range l h x\<close>: the number is \<open>0\<close>
  or its magnitude lies in \<open>[2 ^ l, 2 ^ h]\<close>. \<open>close y x\<close>: \<open>y\<close> is \<open>x\<close> up to one rounding,
  a relative error of at most \<open>eps = 2 ^ -53\<close>. \<open>near a b y x\<close>: \<open>y\<close> lies between
  \<open>(1 - eps) ^ a * x\<close> and \<open>(1 + eps) ^ b * x\<close>, the accumulated error of several roundings.
  \<open>exactSpeed\<close> is the Euclidean length of the stored velocity, without rounding.
\<close>

definition in_range :: "int \<Rightarrow> int \<Rightarrow> real \<Rightarrow> bool" where
  "in_range l h x = (x = 0 \<or> (2 powi l \<le> \<bar>x\<bar> \<and> \<bar>x\<bar> \<le> 2 powi h))"

definition close :: "real \<Rightarrow> real \<Rightarrow> bool" where
  "close y x = (\<bar>y - x\<bar> \<le> eps * \<bar>x\<bar>)"

definition near :: "nat \<Rightarrow> nat \<Rightarrow> real \<Rightarrow> real \<Rightarrow> bool" where
  "near a b y x = ((1 - eps) ^ a * x \<le> y \<and> y \<le> (1 + eps) ^ b * x)"


section \<open>Speed limit\<close>

lemma js_or_zero [simp]: "js_or a 0 = a"
  by (simp add: js_or_def)


lemma round_half_even_unique:
  assumes "\<bar>r - of_int m\<bar> < 1 / 2"
  shows "round_half_even r = m"
proof (cases "of_int m \<le> r")
  case True
  with assms have "\<lfloor>r\<rfloor> = m" by (intro floor_unique) (auto simp: abs_less_iff)
  with assms True show ?thesis
    unfolding round_half_even_def Let_def by (auto simp: abs_less_iff)
next
  case False
  with assms have "\<lfloor>r\<rfloor> = m - 1" by (intro floor_unique) (auto simp: abs_less_iff)
  with assms False show ?thesis
    unfolding round_half_even_def Let_def by (auto simp: abs_less_iff)
qed

lemma two_powr_int: "2 powr (of_int k) = (2::real) powi k"
  by (rule powr_real_of_int') simp_all

lemma binade_unique:
  assumes "2 powi e \<le> \<bar>x\<bar>" and "\<bar>x\<bar> < 2 powi (e + 1)"
  shows "binade x = e"
proof -
  have pos: "0 < \<bar>x\<bar>" using assms(1) by (smt (verit) zero_less_power_int)
  have "2 powr (of_int e) \<le> \<bar>x\<bar>" "\<bar>x\<bar> < 2 powr (of_int e + 1)"
    using assms two_powr_int [of e] two_powr_int [of "e + 1"] by simp_all
  then show ?thesis
    unfolding binade_def using floor_log_eq_powr_iff [OF pos, of 2 e] by simp
qed


lemma fl_zero [simp]: "fl 0 = Some 0"
  by (simp add: fl_def)

text \<open>Evaluating \<open>fl\<close> in the normal range: the nearest multiple of the spacing.\<close>

lemma fl_eval:
  fixes x :: real
  assumes "2 powi e \<le> \<bar>x\<bar>" and "\<bar>x\<bar> < 2 powi (e + 1)" and "- 1022 \<le> e"
    and "\<bar>x / 2 powi (e - 52) - of_int m\<bar> < 1 / 2"
    and "\<bar>real_of_int m * 2 powi (e - 52)\<bar> < 2 powi 1024"
  shows "fl x = Some (of_int m * 2 powi (e - 52))"
proof -
  have nz: "x \<noteq> 0" using assms(1) by (smt (verit) zero_less_power_int)
  have b: "binade x = e" using assms(1,2) by (rule binade_unique)
  have r: "round_half_even (x / 2 powi (e - 52)) = m"
    using assms(4) by (rule round_half_even_unique)
  show ?thesis
    using nz assms(3,5) by (simp add: fl_def b r Let_def max_def)
qed


lemma fl_eval_pos:
  fixes x :: real
  assumes "2 powi e \<le> x" and "x < 2 powi (e + 1)" and "- 1022 \<le> e" and "e \<le> 1022"
    and "(of_int m - 1 / 2) * 2 powi (e - 52) < x"
    and "x < (of_int m + 1 / 2) * 2 powi (e - 52)"
    and "0 < m" and "m \<le> 2 ^ 53"
  shows "fl x = Some (of_int m * 2 powi (e - 52))"
proof (rule fl_eval)
  have x0: "0 < x" using assms(1) by (smt (verit) zero_less_power_int)
  show "2 powi e \<le> \<bar>x\<bar>" "\<bar>x\<bar> < 2 powi (e + 1)" using assms(1,2) x0 by simp_all
  show "- 1022 \<le> e" by fact
  define q :: real where "q = 2 powi (e - 52)"
  have q0: "0 < q" by (simp add: q_def)
  have "of_int m - 1 / 2 < x / q" "x / q < of_int m + 1 / 2"
    using assms(5,6) q0 by (simp_all add: q_def [symmetric] field_simps)
  then have "\<bar>x / q - of_int m\<bar> < 1 / 2" by linarith
  then show "\<bar>x / 2 powi (e - 52) - of_int m\<bar> < 1 / 2"
    by (simp only: q_def)
  have "real_of_int m \<le> 2 ^ 53" using assms(8) by (metis of_int_le_iff of_int_numeral of_int_power)
  moreover have "q \<le> 2 powi 970"
    unfolding q_def using assms(4) by (intro power_int_increasing) simp_all
  ultimately have "real_of_int m * q \<le> 2 ^ 53 * 2 powi 970"
    using assms(7) q0 by (intro mult_mono) simp_all
  also have "\<dots> = 2 powi 1023"
    using power_int_add [of "2::real" 53 970] by simp
  also have "\<dots> < 2 powi 1024"
    by (intro power_int_strict_increasing) simp_all
  finally show "\<bar>real_of_int m * 2 powi (e - 52)\<bar> < 2 powi 1024"
    using assms(7) q0 by (simp add: q_def [symmetric] abs_mult)
qed

lemma fl_eval_sqrt:
  fixes a :: real
  assumes "(2 powi e)\<^sup>2 \<le> a" and "a < (2 powi (e + 1))\<^sup>2" and "- 1022 \<le> e" and "e \<le> 1022"
    and "((of_int m - 1 / 2) * 2 powi (e - 52))\<^sup>2 < a"
    and "a < ((of_int m + 1 / 2) * 2 powi (e - 52))\<^sup>2"
    and "0 < m" and "m \<le> 2 ^ 53"
  shows "fl (sqrt a) = Some (of_int m * 2 powi (e - 52))"
proof (rule fl_eval_pos)
  show "2 powi e \<le> sqrt a" using assms(1) by (rule real_le_rsqrt)
  show "sqrt a < 2 powi (e + 1)" using assms(2) by (intro real_less_lsqrt) simp_all
  show "(of_int m - 1 / 2) * 2 powi (e - 52) < sqrt a" using assms(5) by (rule real_less_rsqrt)
  have "0 \<le> (real_of_int m + 1 / 2) * 2 powi (e - 52)" using assms(7) by simp
  then show "sqrt a < (of_int m + 1 / 2) * 2 powi (e - 52)" using assms(6) by (intro real_less_lsqrt)
qed fact+

text \<open>Relative error of one rounding, and how the errors of successive operations add up.\<close>

lemma eps_bounds: "0 < eps" "eps < 1 / 2"
  by (simp_all add: eps_def power_int_minus)

lemma lo_pos: "0 < 1 - eps" "1 - eps \<le> 1" "1 \<le> 1 + eps" "0 < 1 + eps"
  using eps_bounds by simp_all

subsection \<open>Ranges\<close>

lemma in_range_zero [simp]: "in_range l h 0"
  by (simp add: in_range_def)






subsection \<open>One rounding\<close>




lemma close_nonpos: "close y x \<Longrightarrow> x \<le> 0 \<Longrightarrow> y \<le> 0"
proof -
  assume a: "close y x" "x \<le> 0"
  then have "y \<le> x + eps * (- x)" unfolding close_def by (simp add: abs_le_iff)
  moreover have "eps * (- x) \<le> 1 * (- x)" using a(2) eps_bounds by (intro mult_right_mono) simp_all
  ultimately show ?thesis using a(2) by simp
qed

lemma close_zero: "close y 0 \<Longrightarrow> y = 0"
  by (simp add: close_def)





subsection \<open>Accumulated roundings\<close>

lemma near_refl: "0 \<le> x \<Longrightarrow> near a b x x"
proof -
  assume x: "0 \<le> x"
  have "(1 - eps) ^ a \<le> 1" using lo_pos by (intro power_le_one) simp_all
  moreover have "1 \<le> (1 + eps) ^ b" using lo_pos by (intro one_le_power) simp
  ultimately show ?thesis
    using x unfolding near_def
    by (metis mult_left_le_one_le mult_right_mono mult_1 mult.commute zero_le_power lo_pos(1) less_imp_le)
qed








lemma near_weaken:
  assumes "near a b y x" and "a \<le> a'" and "b \<le> b'" and "0 \<le> x"
  shows "near a' b' y x"
proof -
  have "(1 - eps) ^ a' \<le> (1 - eps) ^ a"
    using assms(2) lo_pos by (intro power_decreasing) simp_all
  then have "(1 - eps) ^ a' * x \<le> (1 - eps) ^ a * x"
    using assms(4) by (rule mult_right_mono)
  moreover have "(1 + eps) ^ b \<le> (1 + eps) ^ b'"
    using assms(3) lo_pos by (intro power_increasing) simp_all
  then have "(1 + eps) ^ b * x \<le> (1 + eps) ^ b' * x"
    using assms(4) by (rule mult_right_mono)
  ultimately show ?thesis using assms(1) unfolding near_def by linarith
qed














text \<open>\<open>getSpeed\<close> and \<open>limitSpeed\<close> evaluated, operation by operation, on the example bodies.\<close>

lemma getSpeed_eval:
  assumes "fmul vx vx = Some xx" and "fmul vy vy = Some yy"
    and "fadd xx yy = Some t" and "fsqrt t = Some s"
  shows "getSpeed (example_body vx vy) = Some s"
  using assms by (simp add: getSpeed_def example_body_def)





















lemma fmul_15: "fmul (1324842829694501 / 2 ^ 51) (1324842829694501 / 2 ^ 51) = Some (6235753330205301 / 2 ^ 54)"
proof -
  have "fl ((1324842829694501 / 2 ^ 51) * (1324842829694501 / 2 ^ 51)) = Some (of_int 6235753330205301 * 2 powi (-2 - 52))"
    by (rule fl_eval_pos) simp_all
  then show ?thesis by (simp add: fmul_def)
qed

lemma fmul_16: "fmul (6624214148472505 / 2 ^ 51) (6624214148472505 / 2 ^ 51) = Some (4871682289222891 / 2 ^ 49)"
proof -
  have "fl ((6624214148472505 / 2 ^ 51) * (6624214148472505 / 2 ^ 51)) = Some (of_int 4871682289222891 * 2 powi (3 - 52))"
    by (rule fl_eval_pos) simp_all
  then show ?thesis by (simp add: fmul_def)
qed

lemma fadd_17: "fadd (6235753330205301 / 2 ^ 54) (4871682289222891 / 2 ^ 49) = Some (5066549580791807 / 2 ^ 49)"
proof -
  have "fl ((6235753330205301 / 2 ^ 54) + (4871682289222891 / 2 ^ 49)) = Some (of_int 5066549580791807 * 2 powi (3 - 52))"
    by (rule fl_eval_pos) simp_all
  then show ?thesis by (simp add: fadd_def)
qed

lemma fsqrt_18: "fsqrt (5066549580791807 / 2 ^ 49) = Some (6755399441055743 / 2 ^ 51)"
proof -
  have "fl (sqrt (5066549580791807 / 2 ^ 49)) = Some (of_int 6755399441055743 * 2 powi (1 - 52))"
    by (rule fl_eval_sqrt) (simp_all add: power_divide)
  then show ?thesis by (simp add: fsqrt_def)
qed

lemma getSpeed_c: "getSpeed (example_body (1324842829694501 / 2 ^ 51) (6624214148472505 / 2 ^ 51)) = Some (6755399441055743 / 2 ^ 51)"
  by (rule getSpeed_eval) (rule fmul_15 fmul_16 fadd_17 fsqrt_18)+





































section \<open>Circle collision\<close>

lemma js_or_one_nonzero: "js_or d 1 \<noteq> 0"
  by (simp add: js_or_def)

lemma sqrt_sq_zero_iff: "sqrt (dx * dx + dy * dy) = 0 \<longleftrightarrow> dx = 0 \<and> dy = (0::real)"
  by (simp add: sum_squares_eq_zero_iff)

lemma unit_normal:
  fixes dx dy d :: real
  assumes d: "d = sqrt (dx * dx + dy * dy)" and dn: "d \<noteq> 0"
  shows "vec_length \<lparr>vec_x = dx / d, vec_y = dy / d\<rparr> = 1"
proof -
  have "0 \<le> dx * dx + dy * dy" by simp
  then have dd: "d * d = dx * dx + dy * dy" unfolding d by simp
  have "dx / d * (dx / d) + dy / d * (dy / d) = (dx * dx + dy * dy) / (d * d)"
    by (simp add: add_divide_distrib)
  also have "\<dots> = (d * d) / (d * d)" by (simp only: dd)
  also have "\<dots> = 1" using dn by simp
  finally show ?thesis by (simp add: vec_length_def dot_def)
qed

lemma vec_length_neg: "vec_length (scale_vec (- 1) v) = vec_length v"
  by (simp add: vec_length_def dot_def scale_vec_def)

lemma checkCircleCollision_present:
  assumes "circle_position ca = Some pa" and "circle_position cb = Some pb"
    and "dx = vec_x pb - vec_x pa" and "dy = vec_y pb - vec_y pa"
    and "d = sqrt (dx * dx + dy * dy)"
    and "m = js_or_undef (circle_radius ca) 0 + js_or_undef (circle_radius cb) 0"
  shows "checkCircleCollision (Some ca) (Some cb) =
     Some (if d < m then
          \<lparr>colliding = True,
           normal = Some \<lparr>vec_x = dx / js_or d 1, vec_y = dy / js_or d 1\<rparr>,
           overlap = Some (m - d),
           point = Some \<lparr>vec_x = vec_x pa + dx / js_or d 1 * js_or_undef (circle_radius ca) 0,
                         vec_y = vec_y pa + dy / js_or d 1 * js_or_undef (circle_radius ca) 0\<rparr>\<rparr>
        else no_collision)"
  using assms by (simp add: checkCircleCollision_def Let_def js_div_def js_or_one_nonzero)

lemma checkCircleCollision_absent:
  "centre a = None \<or> centre b = None \<Longrightarrow> checkCircleCollision a b = Some no_collision"
  by (auto simp: checkCircleCollision_def centre_def split: option.splits)

lemma vec_eq_iff: "(u :: vec2) = v \<longleftrightarrow> vec_x u = vec_x v \<and> vec_y u = vec_y v"
  by (cases u, cases v) simp

text \<open>
  C6 (as amended). \<open>checkCircleCollision\<close> never divides by zero, and it is symmetric:
  \<open>checkCircleCollision a b\<close> and \<open>checkCircleCollision b a\<close> agree on \<open>colliding\<close>. When they
  collide, each normal is the negation of the other; both have length \<open>1\<close> when the centres
  differ, and both are the zero vector when the centres coincide.
\<close>

theorem checkCircleCollision_symmetric:
  "\<exists>ra rb. checkCircleCollision a b = Some ra \<and> checkCircleCollision b a = Some rb
      \<and> colliding ra = colliding rb
      \<and> (colliding ra \<longrightarrow>
           (\<exists>na nb. normal ra = Some na \<and> normal rb = Some nb
              \<and> nb = scale_vec (- 1) na
              \<and> (if centre a = centre b then na = zero_vec
                  else vec_length na = 1 \<and> vec_length nb = 1)))"
proof (cases "centre a = None \<or> centre b = None")
  case True
  then have "checkCircleCollision a b = Some no_collision" "checkCircleCollision b a = Some no_collision"
    by (auto intro: checkCircleCollision_absent)
  then show ?thesis by (simp add: no_collision_def)
next
  case False
  then obtain ca cb pa pb where a: "a = Some ca" and b: "b = Some cb"
    and pa: "circle_position ca = Some pa" and pb: "circle_position cb = Some pb"
    by (auto simp: centre_def split: option.splits)
  define dx dy where "dx = vec_x pb - vec_x pa" and "dy = vec_y pb - vec_y pa"
  define d where "d = sqrt (dx * dx + dy * dy)"
  define ma where "ma = js_or_undef (circle_radius ca) 0 + js_or_undef (circle_radius cb) 0"
  define na :: vec2 where "na = \<lparr>vec_x = dx / js_or d 1, vec_y = dy / js_or d 1\<rparr>"
  have ab: "checkCircleCollision a b = Some (if d < ma then
          \<lparr>colliding = True, normal = Some na, overlap = Some (ma - d),
           point = Some \<lparr>vec_x = vec_x pa + dx / js_or d 1 * js_or_undef (circle_radius ca) 0,
                         vec_y = vec_y pa + dy / js_or d 1 * js_or_undef (circle_radius ca) 0\<rparr>\<rparr>
        else no_collision)"
    unfolding a b na_def
    by (rule checkCircleCollision_present [OF pa pb dx_def dy_def d_def ma_def])
  have ba: "checkCircleCollision b a = Some (if d < ma then
          \<lparr>colliding = True, normal = Some (scale_vec (- 1) na), overlap = Some (ma - d),
           point = Some \<lparr>vec_x = vec_x pb + (- dx) / js_or d 1 * js_or_undef (circle_radius cb) 0,
                         vec_y = vec_y pb + (- dy) / js_or d 1 * js_or_undef (circle_radius cb) 0\<rparr>\<rparr>
        else no_collision)"
  proof -
    have h1: "- dx = vec_x pa - vec_x pb" and h2: "- dy = vec_y pa - vec_y pb"
      by (simp_all add: dx_def dy_def)
    have h3: "d = sqrt (- dx * - dx + - dy * - dy)" by (simp add: d_def)
    have h4: "ma = js_or_undef (circle_radius cb) 0 + js_or_undef (circle_radius ca) 0"
      by (simp add: ma_def)
    show ?thesis
      unfolding a b using checkCircleCollision_present [OF pb pa h1 h2 h3 h4]
      by (simp add: na_def scale_vec_def)
  qed
  have cen: "centre a = centre b \<longleftrightarrow> dx = 0 \<and> dy = 0"
    by (auto simp: a b pa pb centre_def vec_eq_iff dx_def dy_def)
  have nrm: "if centre a = centre b then na = zero_vec
             else vec_length na = 1 \<and> vec_length (scale_vec (- 1) na) = 1"
  proof (cases "centre a = centre b")
    case True
    then show ?thesis using cen by (simp add: na_def zero_vec_def)
  next
    case False
    then have dn: "d \<noteq> 0" using cen by (simp add: d_def sqrt_sq_zero_iff)
    then have "js_or d 1 = d" by (simp add: js_or_def)
    then have "vec_length na = 1"
      using unit_normal [OF d_def dn] by (simp add: na_def)
    then show ?thesis using False by (simp add: vec_length_neg)
  qed
  show ?thesis
    unfolding ab ba using nrm by (simp add: no_collision_def)
qed

text \<open>
  C7 (as amended). For two circles with the same centre, \<open>checkCircleCollision\<close> divides
  by \<open>1\<close> instead of the distance \<open>0\<close>, so no division by zero happens; the result collides
  exactly when the sum of the radii is positive, and then its normal is the zero vector
  and its overlap the sum of the radii.
\<close>

theorem checkCircleCollision_coincident:
  assumes "circle_position ca = Some p" and "circle_position cb = Some p"
  shows "\<exists>r. checkCircleCollision (Some ca) (Some cb) = Some r
     \<and> colliding r = (0 < js_or_undef (circle_radius ca) 0 + js_or_undef (circle_radius cb) 0)
     \<and> (colliding r \<longrightarrow> normal r = Some zero_vec
          \<and> overlap r = Some (js_or_undef (circle_radius ca) 0 + js_or_undef (circle_radius cb) 0))"
  using checkCircleCollision_present [OF assms, of 0 0 0 "js_or_undef (circle_radius ca) 0 + js_or_undef (circle_radius cb) 0"]
  by (simp add: no_collision_def zero_vec_def)

text \<open>
  C6 as stated fails for coincident centres: two circles of radius \<open>1\<close> at the origin
  collide, and the normal is \<open>(0, 0)\<close>, which is not a unit vector.
\<close>

theorem checkCircleCollision_symmetric_counterexample:
  "checkCircleCollision (Some (mk_circle 0 0 1)) (Some (mk_circle 0 0 1))
     = Some \<lparr>colliding = True, normal = Some \<lparr>vec_x = 0, vec_y = 0\<rparr>, overlap = Some 2,
             point = Some \<lparr>vec_x = 0, vec_y = 0\<rparr>\<rparr>
   \<and> vec_length \<lparr>vec_x = 0, vec_y = 0\<rparr> \<noteq> 1"
  by (simp add: checkCircleCollision_def mk_circle_def Let_def js_div_def js_or_def js_or_undef_def vec_length_def dot_def)

text \<open>
  C7 as stated fails: circles of radius \<open>1\<close> and \<open>4\<close>, both centred at \<open>(2, 3)\<close>, collide
  with the normal \<open>(0, 0)\<close>, of length \<open>0\<close>.
\<close>

theorem checkCircleCollision_coincident_counterexample:
  "checkCircleCollision (Some (mk_circle 2 3 1)) (Some (mk_circle 2 3 4))
     = Some \<lparr>colliding = True, normal = Some \<lparr>vec_x = 0, vec_y = 0\<rparr>, overlap = Some 5,
             point = Some \<lparr>vec_x = 2, vec_y = 3\<rparr>\<rparr>
   \<and> vec_length \<lparr>vec_x = 0, vec_y = 0\<rparr> = 0"
  by (simp add: checkCircleCollision_def mk_circle_def Let_def js_div_def js_or_def js_or_undef_def vec_length_def dot_def)

theorem checkCircleCollision_symmetric_witness:
  "checkCircleCollision (Some (mk_circle 0 0 2)) (Some (mk_circle 3 0 2))
     = Some \<lparr>colliding = True, normal = Some \<lparr>vec_x = 1, vec_y = 0\<rparr>, overlap = Some 1,
             point = Some \<lparr>vec_x = 2, vec_y = 0\<rparr>\<rparr>
   \<and> checkCircleCollision (Some (mk_circle 3 0 2)) (Some (mk_circle 0 0 2))
     = Some \<lparr>colliding = True, normal = Some \<lparr>vec_x = - 1, vec_y = 0\<rparr>, overlap = Some 1,
             point = Some \<lparr>vec_x = 1, vec_y = 0\<rparr>\<rparr>
   \<and> centre (Some (mk_circle 0 0 2)) \<noteq> centre (Some (mk_circle 3 0 2))
   \<and> vec_length \<lparr>vec_x = 1, vec_y = 0\<rparr> = 1 \<and> vec_length \<lparr>vec_x = - 1, vec_y = 0\<rparr> = 1"
  using checkCircleCollision_symmetric [of "Some (mk_circle 0 0 2)" "Some (mk_circle 3 0 2)"]
  by (simp add: checkCircleCollision_def mk_circle_def Let_def js_div_def js_or_def js_or_undef_def vec_length_def dot_def centre_def)

theorem checkCircleCollision_coincident_witness:
  "circle_position (mk_circle 2 3 1) = Some \<lparr>vec_x = 2, vec_y = 3\<rparr>
   \<and> circle_position (mk_circle 2 3 4) = Some \<lparr>vec_x = 2, vec_y = 3\<rparr>
   \<and> (\<exists>r. checkCircleCollision (Some (mk_circle 2 3 1)) (Some (mk_circle 2 3 4)) = Some r
        \<and> colliding r \<and> normal r = Some zero_vec \<and> overlap r = Some 5)"
  using checkCircleCollision_coincident [of "mk_circle 2 3 1" "\<lparr>vec_x = 2, vec_y = 3\<rparr>" "mk_circle 2 3 4"]
  by (auto simp: mk_circle_def js_or_undef_def js_or_def)

section \<open>Collision resolution\<close>

lemma js_or_undef_one_nonzero: "js_or_undef m 1 \<noteq> 0"
  by (simp add: js_or_undef_def js_or_def split: option.splits)

lemma resolveCollision_skip: "relVelDot a b c > 0 \<Longrightarrow> resolveCollision a b c = Some (a, b)"
  by (simp add: resolveCollision_def Let_def)

lemma vec_eta: "\<lparr>vec_x = vec_x (v::vec2), vec_y = vec_y v\<rparr> = v"
  by (cases v) simp

lemma moved_zero: "moved n 0 this = this"
  by (simp add: moved_def vec_eta)

lemma inverse_sum_zero_iff:
  fixes ma mb :: real
  assumes "ma \<noteq> 0" and "mb \<noteq> 0"
  shows "1 / ma + 1 / mb = 0 \<longleftrightarrow> ma + mb = 0"
proof -
  have "1 / ma + 1 / mb = (ma + mb) / (ma * mb)"
    using assms by (simp add: field_simps)
  then show ?thesis using assms by simp
qed

lemma resolveCollision_zero_dot:
  assumes z: "relVelDot a b c = 0"
  shows "resolveCollision a b c =
     (if js_or_undef (mass a) 1 + js_or_undef (mass b) 1 = 0 then None
      else Some (moved (collisionNormal c)
                   (0.2 * penetration c * js_or_undef (mass b) 1
                      / (js_or_undef (mass a) 1 + js_or_undef (mass b) 1)) a,
                 moved (collisionNormal c)
                   (- (0.2 * penetration c * js_or_undef (mass a) 1
                      / (js_or_undef (mass a) 1 + js_or_undef (mass b) 1))) b))"
proof -
  define ma mb where "ma = js_or_undef (mass a) 1" and "mb = js_or_undef (mass b) 1"
  have nz: "ma \<noteq> 0" "mb \<noteq> 0"
    unfolding ma_def mb_def by (rule js_or_undef_one_nonzero)+
  note iz = inverse_sum_zero_iff [OF nz]
  show ?thesis
  proof (cases "ma + mb = 0")
    case True
    then show ?thesis
      using nz iz unfolding resolveCollision_def Let_def z ma_def [symmetric] mb_def [symmetric]
      by (simp add: js_div_def)
  next
    case False
    then have s: "1 / ma + 1 / mb \<noteq> 0" using iz by simp
    show ?thesis
    proof (cases "overlap c")
      case None
      then show ?thesis
        using nz s False unfolding resolveCollision_def Let_def z ma_def [symmetric] mb_def [symmetric]
        by (simp add: js_div_def penetration_def moved_zero vec_eta)
    next
      case (Some ov)
      show ?thesis
      proof (cases "ov = 0")
        case True
        with Some show ?thesis
          using nz s False unfolding resolveCollision_def Let_def z ma_def [symmetric] mb_def [symmetric]
          by (simp add: js_div_def penetration_def moved_zero vec_eta)
      next
        case ov: False
        with Some show ?thesis
          using nz s False unfolding resolveCollision_def Let_def z ma_def [symmetric] mb_def [symmetric]
          by (simp add: js_div_def penetration_def moved_def collisionNormal_def vec_eta)
      qed
    qed
  qed
qed

text \<open>
  C8 (as amended). When \<open>dot(v_a - v_b, n) > 0\<close>, \<open>resolveCollision\<close> returns both bodies
  unchanged. When the dot product is exactly \<open>0\<close> the call is not skipped. With
  \<open>m_a = a.mass || 1\<close> and \<open>m_b = b.mass || 1\<close>: if \<open>m_a + m_b = 0\<close> the impulse is \<open>0 / 0\<close> and
  the result is not finite; otherwise the impulse is zero, both velocities are unchanged,
  and the positions are corrected along the normal: \<open>a\<close> moves by
  \<open>n * 0.2 * overlap * m_b / (m_a + m_b)\<close> and \<open>b\<close> by \<open>- n * 0.2 * overlap * m_a / (m_a + m_b)\<close>,
  which is no move when the overlap is absent or \<open>0\<close>, or the normal is absent or zero.
\<close>

theorem resolveCollision_separating:
  "(relVelDot a b c > 0 \<longrightarrow> resolveCollision a b c = Some (a, b))
   \<and> (relVelDot a b c = 0 \<longrightarrow>
        resolveCollision a b c =
          (if js_or_undef (mass a) 1 + js_or_undef (mass b) 1 = 0 then None
           else Some (moved (collisionNormal c)
                        (0.2 * penetration c * js_or_undef (mass b) 1
                           / (js_or_undef (mass a) 1 + js_or_undef (mass b) 1)) a,
                      moved (collisionNormal c)
                        (- (0.2 * penetration c * js_or_undef (mass a) 1
                           / (js_or_undef (mass a) 1 + js_or_undef (mass b) 1))) b)))"
  using resolveCollision_skip [of a b c] resolveCollision_zero_dot [of a b c]
  by blast

lemma body_at_fields [simp]:
  "mass (body_at px py vx vy) = Some 1"
  "restitution (body_at px py vx vy) = Some (1/2)"
  "velocity (body_at px py vx vy) = \<lparr>vec_x = vx, vec_y = vy\<rparr>"
  "position (body_at px py vx vy) = \<lparr>vec_x = px, vec_y = py\<rparr>"
  by (simp_all add: body_at_def example_body_def)

lemma body_at_update [simp]:
  "(body_at px py vx vy)\<lparr>velocity := \<lparr>vec_x = wx, vec_y = wy\<rparr>\<rparr> = body_at px py wx wy"
  "(body_at px py vx vy)\<lparr>position := \<lparr>vec_x = qx, vec_y = qy\<rparr>\<rparr> = body_at qx qy vx vy"
  by (simp_all add: body_at_def example_body_def)

lemma contact_fields [simp]:
  "normal (contact nx ny ov) = Some \<lparr>vec_x = nx, vec_y = ny\<rparr>"
  "overlap (contact nx ny ov) = Some ov"
  by (simp_all add: contact_def)

lemma relVelDot_body_at [simp]:
  "relVelDot (body_at px py vx vy) (body_at qx qy wx wy) (contact nx ny ov)
     = (vx - wx) * nx + (vy - wy) * ny"
  by (simp add: relVelDot_def Let_def)

lemma heavy_body_at_fields [simp]:
  "mass (heavy_body_at px py m) = Some m"
  "velocity (heavy_body_at px py m) = \<lparr>vec_x = 0, vec_y = 0\<rparr>"
  by (simp_all add: heavy_body_at_def)

text \<open>
  The four cases: a positive dot product (skipped); dot product \<open>0\<close> with normal \<open>(0, 1)\<close> and
  overlap \<open>2\<close> (each body moved by \<open>0.2\<close>); dot product \<open>0\<close> with a zero normal and overlap
  \<open>40\<close> (nothing moves); masses \<open>-1\<close> and \<open>1\<close> (not finite).
\<close>

theorem resolveCollision_separating_witness:
  "relVelDot (body_at 0 0 1 0) (body_at 1 0 0 0) (contact 1 0 1) > 0
   \<and> resolveCollision (body_at 0 0 1 0) (body_at 1 0 0 0) (contact 1 0 1)
       = Some (body_at 0 0 1 0, body_at 1 0 0 0)
   \<and> relVelDot (body_at 0 0 0 0) (body_at 2 0 0 0) (contact 0 1 2) = 0
   \<and> resolveCollision (body_at 0 0 0 0) (body_at 2 0 0 0) (contact 0 1 2)
       = Some (body_at 0 (1 / 5) 0 0, body_at 2 (- (1 / 5)) 0 0)
   \<and> relVelDot (body_at 0 0 0 0) (body_at 2 0 0 0) (contact 0 0 40) = 0
   \<and> resolveCollision (body_at 0 0 0 0) (body_at 2 0 0 0) (contact 0 0 40)
       = Some (body_at 0 0 0 0, body_at 2 0 0 0)
   \<and> relVelDot (heavy_body_at 0 0 (- 1)) (heavy_body_at 1 0 1) (contact 1 0 1) = 0
   \<and> resolveCollision (heavy_body_at 0 0 (- 1)) (heavy_body_at 1 0 1) (contact 1 0 1) = None"
  using resolveCollision_separating [of "body_at 0 0 1 0" "body_at 1 0 0 0" "contact 1 0 1"]
    resolveCollision_separating [of "body_at 0 0 0 0" "body_at 2 0 0 0" "contact 0 1 2"]
    resolveCollision_separating [of "body_at 0 0 0 0" "body_at 2 0 0 0" "contact 0 0 40"]
    resolveCollision_separating [of "heavy_body_at 0 0 (- 1)" "heavy_body_at 1 0 1" "contact 1 0 1"]
  by (simp add: relVelDot_def moved_def collisionNormal_def penetration_def js_or_undef_def js_or_def)

text \<open>
  C8 as stated fails at \<open>dot(v_a - v_b, n) = 0\<close>: two bodies at rest, \<open>1\<close> apart, with normal
  \<open>(1, 0)\<close> and overlap \<open>1\<close>, are both moved by \<open>0.2 * 1 / 2 = 0.1\<close>.
\<close>

theorem resolveCollision_zero_dot_counterexample:
  "relVelDot (body_at 0 0 0 0) (body_at 1 0 0 0) (contact 1 0 1) \<ge> 0
   \<and> resolveCollision (body_at 0 0 0 0) (body_at 1 0 0 0) (contact 1 0 1)
       = Some (body_at (1/10) 0 0 0, body_at (9/10) 0 0 0)
   \<and> position (body_at (1/10) 0 0 0) \<noteq> position (body_at 0 0 0 0)"
  by (simp add: resolveCollision_def Let_def js_div_def js_or_undef_def js_or_def js_default_def)

section \<open>Boundary collision\<close>

lemma lineCircleCollision_has_overlap: "has_overlap (lineCircleCollision s e p r)"
  by (simp add: has_overlap_def lineCircleCollision_def Let_def no_collision_def)

lemma overlap_le_refl: "colliding c \<Longrightarrow> has_overlap c \<Longrightarrow> overlap_le c c"
  by (auto simp: overlap_le_def has_overlap_def)

lemma overlap_le_trans: "overlap_le a b \<Longrightarrow> overlap_le b c \<Longrightarrow> overlap_le a c"
  by (auto simp: overlap_le_def split: option.splits)

lemma not_gt_overlap_le:
  "colliding a \<Longrightarrow> colliding b \<Longrightarrow> has_overlap a \<Longrightarrow> has_overlap b
     \<Longrightarrow> \<not> js_gt (overlap a) (overlap b) \<Longrightarrow> overlap_le a b"
  by (auto simp: overlap_le_def has_overlap_def js_gt_def js_lt_def)

lemma gt_overlap_le: "js_gt (overlap a) (overlap b) \<Longrightarrow> overlap_le b a"
  by (auto simp: overlap_le_def js_gt_def js_lt_def split: option.splits)

lemma boundaryLoop_inv:
  assumes "has_overlap c0"
  shows "has_overlap (boundaryLoop segs pos r c0)
     \<and> (boundaryLoop segs pos r c0 = c0
          \<or> (\<exists>seg\<in>set segs. boundaryLoop segs pos r c0 = lineCircleCollision (seg_start seg) (seg_end seg) pos r
                \<and> colliding (lineCircleCollision (seg_start seg) (seg_end seg) pos r)))
     \<and> (colliding c0 \<longrightarrow> colliding (boundaryLoop segs pos r c0) \<and> overlap_le c0 (boundaryLoop segs pos r c0))
     \<and> (\<forall>seg\<in>set segs. colliding (lineCircleCollision (seg_start seg) (seg_end seg) pos r)
            \<longrightarrow> colliding (boundaryLoop segs pos r c0)
              \<and> overlap_le (lineCircleCollision (seg_start seg) (seg_end seg) pos r) (boundaryLoop segs pos r c0))"
  using assms
proof (induction segs arbitrary: c0)
  case Nil
  then show ?case by (simp add: overlap_le_refl)
next
  case (Cons seg segs)
  define c where "c = lineCircleCollision (seg_start seg) (seg_end seg) pos r"
  define c1 where "c1 = (if colliding c \<and> (\<not> colliding c0 \<or> js_gt (overlap c) (overlap c0)) then c else c0)"
  have hc: "has_overlap c" unfolding c_def by (rule lineCircleCollision_has_overlap)
  have h1: "has_overlap c1" using hc Cons.prems by (simp add: c1_def)
  have step: "boundaryLoop (seg # segs) pos r c0 = boundaryLoop segs pos r c1"
    by (auto simp: c_def c1_def Let_def)
  note IH = Cons.IH [OF h1]
  let ?res = "boundaryLoop segs pos r c1"
  have c1_cases: "c1 = c0 \<or> (c1 = c \<and> colliding c)" by (auto simp: c1_def)
  have c0_c1: "colliding c0 \<longrightarrow> colliding c1 \<and> overlap_le c0 c1"
    using Cons.prems by (auto simp: c1_def overlap_le_refl gt_overlap_le)
  have c_c1: "colliding c \<longrightarrow> colliding c1 \<and> overlap_le c c1"
    using Cons.prems hc by (auto simp: c1_def overlap_le_refl not_gt_overlap_le)
  have A: "has_overlap ?res" using IH by blast
  have B: "?res = c0 \<or> (\<exists>s\<in>set (seg # segs). ?res = lineCircleCollision (seg_start s) (seg_end s) pos r
                \<and> colliding (lineCircleCollision (seg_start s) (seg_end s) pos r))"
    using IH c1_cases unfolding c_def by auto
  have C: "colliding c0 \<longrightarrow> colliding ?res \<and> overlap_le c0 ?res"
    using IH c0_c1 overlap_le_trans by blast
  have D: "\<forall>s\<in>set (seg # segs). colliding (lineCircleCollision (seg_start s) (seg_end s) pos r)
            \<longrightarrow> colliding ?res \<and> overlap_le (lineCircleCollision (seg_start s) (seg_end s) pos r) ?res"
  proof
    fix s assume "s \<in> set (seg # segs)"
    then consider "s = seg" | "s \<in> set segs" by auto
    then show "colliding (lineCircleCollision (seg_start s) (seg_end s) pos r)
            \<longrightarrow> colliding ?res \<and> overlap_le (lineCircleCollision (seg_start s) (seg_end s) pos r) ?res"
    proof cases
      case 1
      then show ?thesis using IH c_c1 overlap_le_trans unfolding c_def by blast
    next
      case 2
      then show ?thesis using IH by blast
    qed
  qed
  show ?case unfolding step using A B C D by blast
qed

lemma boundaryLoop_none:
  "\<forall>seg\<in>set segs. \<not> colliding (lineCircleCollision (seg_start seg) (seg_end seg) pos r)
     \<Longrightarrow> boundaryLoop segs pos r c0 = c0"
  by (induction segs arbitrary: c0) (simp_all add: Let_def)

lemma initialClosest_props: "has_overlap initialClosest" "\<not> colliding initialClosest"
  by (simp_all add: has_overlap_def initialClosest_def)

text \<open>
  C9. \<open>checkBoundaryCollision\<close> tests the sprite's circle against every inner and outer
  segment. If some segment collides, the result is the collision with one of the segments,
  it collides, and no colliding segment has a larger overlap; otherwise the result is the
  initial, non-colliding value.
\<close>

theorem checkBoundaryCollision_deepest:
  "if \<exists>seg\<in>set (boundarySegments trk). colliding (segmentCollision sprite seg)
   then \<exists>seg\<in>set (boundarySegments trk).
          checkBoundaryCollision trk sprite = segmentCollision sprite seg
          \<and> colliding (segmentCollision sprite seg)
          \<and> (\<forall>seg'\<in>set (boundarySegments trk). colliding (segmentCollision sprite seg')
                \<longrightarrow> overlap_le (segmentCollision sprite seg') (segmentCollision sprite seg))
   else checkBoundaryCollision trk sprite = initialClosest
        \<and> \<not> colliding (checkBoundaryCollision trk sprite)"
proof (cases "\<exists>seg\<in>set (boundarySegments trk). colliding (segmentCollision sprite seg)")
  case False
  then have "checkBoundaryCollision trk sprite = initialClosest"
    unfolding checkBoundaryCollision_def
    by (intro boundaryLoop_none) (simp add: boundarySegments_def segmentCollision_def)
  with False show ?thesis by (simp add: initialClosest_props)
next
  case True
  let ?res = "checkBoundaryCollision trk sprite"
  note inv = boundaryLoop_inv [OF initialClosest_props(1),
      of "boundarySegments trk" "position sprite" "collider_radius sprite"]
  have res: "?res = boundaryLoop (boundarySegments trk) (position sprite) (collider_radius sprite) initialClosest"
    by (simp add: checkBoundaryCollision_def boundarySegments_def)
  from True inv have col: "colliding ?res"
    unfolding res segmentCollision_def by blast
  with inv initialClosest_props(2) obtain seg where seg: "seg \<in> set (boundarySegments trk)"
    "?res = segmentCollision sprite seg" "colliding (segmentCollision sprite seg)"
    unfolding res segmentCollision_def by metis
  have "\<forall>seg'\<in>set (boundarySegments trk). colliding (segmentCollision sprite seg')
                \<longrightarrow> overlap_le (segmentCollision sprite seg') ?res"
    using inv unfolding res segmentCollision_def by blast
  with seg True show ?thesis by (auto simp del: )
qed

lemma seg1: "segmentCollision small_racer (mk_segment 2 (- 10) 2 10)
   = \<lparr>colliding = True, normal = Some \<lparr>vec_x = Some (- 1), vec_y = Some 0\<rparr>,
      overlap = Some 1, point = Some \<lparr>vec_x = 2, vec_y = 0\<rparr>\<rparr>"
  by (simp add: segmentCollision_def small_racer_def example_body_def mk_segment_def
      lineCircleCollision_def pointToLineDistance_def Let_def js_div_def)

lemma seg2: "segmentCollision small_racer (mk_segment (- 10) 1 10 1)
   = \<lparr>colliding = True, normal = Some \<lparr>vec_x = Some 0, vec_y = Some (- 1)\<rparr>,
      overlap = Some 2, point = Some \<lparr>vec_x = 0, vec_y = 1\<rparr>\<rparr>"
  by (simp add: segmentCollision_def small_racer_def example_body_def mk_segment_def
      lineCircleCollision_def pointToLineDistance_def Let_def js_div_def)

text \<open>
  The first segment found collides with overlap \<open>1\<close>, the second with overlap \<open>2\<close>: the
  result is the second.
\<close>

theorem checkBoundaryCollision_deepest_witness:
  "boundarySegments two_wall_track = [mk_segment 2 (- 10) 2 10, mk_segment (- 10) 1 10 1]
   \<and> overlap (segmentCollision small_racer (mk_segment 2 (- 10) 2 10)) = Some 1
   \<and> overlap (segmentCollision small_racer (mk_segment (- 10) 1 10 1)) = Some 2
   \<and> checkBoundaryCollision two_wall_track small_racer
       = segmentCollision small_racer (mk_segment (- 10) 1 10 1)"
  using checkBoundaryCollision_deepest [of two_wall_track small_racer]
  by (auto simp: seg1 seg2 boundarySegments_def two_wall_track_def overlap_le_def)

section \<open>Power-ups\<close>

lemma findIndex_None: "findIndex P xs = None \<longleftrightarrow> (\<forall>x\<in>set xs. \<not> P x)"
  by (induction xs) auto

lemma findIndex_Some:
  "findIndex P xs = Some i \<Longrightarrow> i < length xs \<and> P (xs ! i) \<and> (\<forall>j<i. \<not> P (xs ! j))"
proof (induction xs arbitrary: i)
  case Nil
  then show ?case by simp
next
  case (Cons x xs)
  show ?case
  proof (cases "P x")
    case True
    with Cons.prems show ?thesis by simp
  next
    case False
    with Cons.prems obtain k where k: "findIndex P xs = Some k" "i = Suc k" by auto
    from Cons.IH [OF k(1)] False k(2) show ?thesis
      by (auto simp: nth_Cons split: nat.splits)
  qed
qed

lemma kinds_refresh:
  "i < length xs \<Longrightarrow> map ptype (xs[i := (xs ! i)\<lparr>timeRemaining := d\<rparr>]) = map ptype xs"
  by (simp add: map_update list_update_same_conv)

lemma kinds_addPowerup:
  "kinds (fst (addPowerup ty this)) =
     (if ty \<in> set (kinds this) then kinds this else kinds this @ [ty])"
proof (cases "findIndex (\<lambda>p. ptype p = ty) (activePowerups this)")
  case None
  then have "ty \<notin> set (kinds this)" by (auto simp: findIndex_None kinds_def)
  with None show ?thesis by (simp add: addPowerup_def Let_def kinds_def)
next
  case (Some i)
  from findIndex_Some [OF Some] have i: "i < length (activePowerups this)"
    and t: "ptype (activePowerups this ! i) = ty" by auto
  then have "ty \<in> set (kinds this)" by (auto simp: kinds_def)
  with Some i show ?thesis by (simp add: addPowerup_def Let_def kinds_def kinds_refresh)
qed

lemma distinct_addPowerup: "distinct (kinds this) \<Longrightarrow> distinct (kinds (fst (addPowerup ty this)))"
  by (simp add: kinds_addPowerup)

lemma distinct_updatePowerups: "distinct (kinds this) \<Longrightarrow> distinct (kinds (updatePowerups dt this))"
proof -
  assume d: "distinct (kinds this)"
  let ?g = "\<lambda>p. p\<lparr>timeRemaining := timeRemaining p - dt * 1000\<rparr>"
  have "map ptype (map ?g (activePowerups this)) = kinds this"
    by (simp add: kinds_def comp_def)
  with d have "distinct (map ptype (map ?g (activePowerups this)))" by simp
  then have "distinct (map ptype (filter (\<lambda>p. timeRemaining p > 0) (map ?g (activePowerups this))))"
    by (rule distinct_map_filter)
  then show ?thesis by (simp add: updatePowerups_def Let_def kinds_def)
qed

lemma distinct_remove_nth:
  assumes "distinct (map f xs)"
  shows "distinct (map f (take i xs @ drop (Suc i) xs))"
proof (cases "i < length xs")
  case True
  have "map f xs = map f (take i xs) @ f (xs ! i) # map f (drop (Suc i) xs)"
    using True by (metis id_take_nth_drop map_append list.simps(9))
  with assms show ?thesis by (metis distinct_append distinct.simps(2) map_append disjoint_insert(1) list.simps(15))
next
  case False
  then show ?thesis using assms by simp
qed

lemma distinct_useActivePowerup:
  assumes "distinct (kinds this)"
  shows "distinct (kinds (fst (useActivePowerup this)))"
proof (cases "findIndex (\<lambda>p. ptype p = pid OIL_SLICK) (activePowerups this)")
  case None
  with assms show ?thesis by (simp add: useActivePowerup_def)
next
  case (Some i)
  have "distinct (map ptype (activePowerups (fst (addPowerup (pid OIL_SLICK) this))))"
    using distinct_addPowerup [OF assms] by (simp add: kinds_def)
  then have "distinct (map ptype (take i (activePowerups (fst (addPowerup (pid OIL_SLICK) this)))
                 @ drop (Suc i) (activePowerups (fst (addPowerup (pid OIL_SLICK) this)))))"
    by (rule distinct_remove_nth)
  with Some show ?thesis
    by (simp add: useActivePowerup_def kinds_def split_beta)
qed

lemma activePowerups_completeLap [simp]: "activePowerups (completeLap t1 t2 this) = activePowerups this"
  by (simp add: completeLap_def Let_def)

lemma activePowerups_raceProgressOnHit [simp]:
  "activePowerups (raceProgressOnHit n cp t0 t1 t2 this) = activePowerups this"
  by (simp add: raceProgressOnHit_def Let_def split: option.splits)

lemma kinds_updateRaceProgress [simp]: "kinds (updateRaceProgress trk t0 t1 t2 this) = kinds this"
  by (simp add: updateRaceProgress_def kinds_def)

lemma kinds_Sprite_update [simp]: "kinds (Sprite_update dt this) = kinds this"
  by (simp add: Sprite_update_def Let_def kinds_def)

lemma reachable_distinct: "reachable this \<Longrightarrow> distinct (kinds this)"
proof (induction rule: reachable.induct)
  case (reach_new px py ts)
  show ?case by (simp add: kinds_def Potato_def)
next
  case (reach_add this ty)
  then show ?case by (simp add: distinct_addPowerup)
next
  case (reach_use this)
  then show ?case by (simp add: distinct_useActivePowerup)
next
  case (reach_update this deltaTime)
  then show ?case by (simp add: distinct_updatePowerups)
next
  case (reach_other this this')
  then show ?case by (simp add: kinds_def)
qed

text \<open>The methods that do not assign \<open>activePowerups\<close> keep a racer among the reachable states.\<close>

lemma reachable_updateRaceProgress:
  "reachable this \<Longrightarrow> reachable (updateRaceProgress trk t0 t1 t2 this)"
  by (erule reach_other) (simp add: updateRaceProgress_def)

lemma reachable_Sprite_update: "reachable this \<Longrightarrow> reachable (Sprite_update dt this)"
  by (erule reach_other) (simp add: Sprite_update_def Let_def)

lemma reachable_applyForce: "reachable this \<Longrightarrow> reachable (applyForce fx fy this)"
  by (erule reach_other) (simp add: applyForce_def Let_def)

lemma reachable_applyDamage: "reachable this \<Longrightarrow> reachable (applyDamage amount this)"
  by (erule reach_other) (simp add: applyDamage_def Let_def)

lemma reachable_regenerateHealth: "reachable this \<Longrightarrow> reachable (regenerateHealth dt this)"
  by (erule reach_other) (simp add: regenerateHealth_def Let_def)

text \<open>\<open>getPowerupDuration\<close> returns the duration of the definition whose id is the kind.\<close>

lemma getPowerupDuration_table:
  "getPowerupDuration (pid SPEED_BOOST) = duration SPEED_BOOST"
  "getPowerupDuration (pid SHIELD) = duration SHIELD"
  "getPowerupDuration (pid GHOST) = duration GHOST"
  "getPowerupDuration (pid OIL_SLICK) = duration OIL_SLICK"
  "getPowerupDuration (pid SIZE_REDUCTION) = duration SIZE_REDUCTION"
  by (simp_all add: getPowerupDuration_def CONFIG_POWERUPS_def SPEED_BOOST_def SHIELD_def
      GHOST_def OIL_SLICK_def SIZE_REDUCTION_def)

lemma getPowerupDuration_config:
  "(key, d) \<in> set CONFIG_POWERUPS \<Longrightarrow> getPowerupDuration (pid d) = duration d"
  by (auto simp: CONFIG_POWERUPS_def getPowerupDuration_table)

lemma durationLoop_default:
  "ty \<notin> set (map (pid \<circ> snd) table) \<Longrightarrow> durationLoop table ty = 3000"
  by (induction table) auto

lemma refresh_resets:
  assumes d: "distinct (kinds this)" and ty: "ty \<in> set (kinds this)"
    and pw: "pw \<in> set (activePowerups (fst (addPowerup ty this)))"
  shows "if ptype pw = ty then timeRemaining pw = getPowerupDuration ty
         else pw \<in> set (activePowerups this)"
proof -
  let ?xs = "activePowerups this"
  from ty obtain i where fi: "findIndex (\<lambda>p. ptype p = ty) ?xs = Some i"
    by (cases "findIndex (\<lambda>p. ptype p = ty) ?xs") (auto simp: findIndex_None kinds_def)
  from findIndex_Some [OF fi] have i: "i < length ?xs" and t: "ptype (?xs ! i) = ty" by auto
  let ?v = "(?xs ! i)\<lparr>timeRemaining := getPowerupDuration ty\<rparr>"
  have aps: "activePowerups (fst (addPowerup ty this)) = ?xs[i := ?v]"
    using fi by (simp add: addPowerup_def Let_def)
  from pw obtain j where j: "j < length ?xs" "pw = (?xs[i := ?v]) ! j"
    unfolding aps by (auto simp: in_set_conv_nth)
  show ?thesis
  proof (cases "j = i")
    case True
    with j i t show ?thesis by simp
  next
    case False
    with j have pj: "pw = ?xs ! j" by simp
    have "ptype (?xs ! j) \<noteq> ty"
    proof
      assume "ptype (?xs ! j) = ty"
      with t have e: "map ptype ?xs ! j = map ptype ?xs ! i" using i j by simp
      have dm: "distinct (map ptype ?xs)" using d by (simp add: kinds_def)
      have "j = i"
        using nth_eq_iff_index_eq [OF dm, of j i] e i j(1) by simp
      with False show False by simp
    qed
    with pj j show ?thesis by auto
  qed
qed

text \<open>
  C3. In every state a racer reaches, the kinds of its active power-ups are pairwise
  distinct: there is at most one entry per kind. Collecting a kind that is already held
  adds no entry: the entry of that kind gets \<open>getPowerupDuration\<close> of the kind as its remaining
  time, whatever remained before, and the other entries are untouched. That value is the
  full duration of the kind's definition in \<open>CONFIG.POWERUPS\<close>: \<open>3000\<close> ms for the speed boost,
  \<open>5000\<close> for the shield, \<open>3000\<close> for the ghost, \<open>5000\<close> for the oil slick, \<open>4000\<close> for the size
  reduction, and the default \<open>3000\<close> for a kind without a definition.
\<close>

theorem powerups_unique_by_kind:
  assumes "reachable this"
  shows "distinct (kinds this)
     \<and> (\<forall>ty. ty \<in> set (kinds this) \<longrightarrow>
           kinds (fst (addPowerup ty this)) = kinds this
           \<and> (\<forall>pw\<in>set (activePowerups (fst (addPowerup ty this))).
                 if ptype pw = ty then timeRemaining pw = getPowerupDuration ty
                 else pw \<in> set (activePowerups this)))
     \<and> (\<forall>(key, d)\<in>set CONFIG_POWERUPS. getPowerupDuration (pid d) = duration d)
     \<and> (\<forall>ty. ty \<notin> set (map (pid \<circ> snd) CONFIG_POWERUPS) \<longrightarrow> getPowerupDuration ty = 3000)
     \<and> getPowerupDuration ''boost'' = 3000 \<and> getPowerupDuration ''shield'' = 5000
     \<and> getPowerupDuration ''ghost'' = 3000 \<and> getPowerupDuration ''oil'' = 5000
     \<and> getPowerupDuration ''shrink'' = 4000"
proof -
  have d: "distinct (kinds this)" using assms by (rule reachable_distinct)
  have t: "\<forall>(key, d)\<in>set CONFIG_POWERUPS. getPowerupDuration (pid d) = duration d"
    using getPowerupDuration_config by blast
  have f: "\<forall>ty. ty \<notin> set (map (pid \<circ> snd) CONFIG_POWERUPS) \<longrightarrow> getPowerupDuration ty = 3000"
    unfolding getPowerupDuration_def using durationLoop_default by blast
  have n: "getPowerupDuration ''boost'' = 3000 \<and> getPowerupDuration ''shield'' = 5000
     \<and> getPowerupDuration ''ghost'' = 3000 \<and> getPowerupDuration ''oil'' = 5000
     \<and> getPowerupDuration ''shrink'' = 4000"
    using getPowerupDuration_table
    by (simp add: SPEED_BOOST_def SHIELD_def GHOST_def OIL_SLICK_def SIZE_REDUCTION_def)
  have r: "\<forall>ty. ty \<in> set (kinds this) \<longrightarrow>
           kinds (fst (addPowerup ty this)) = kinds this
           \<and> (\<forall>pw\<in>set (activePowerups (fst (addPowerup ty this))).
                 if ptype pw = ty then timeRemaining pw = getPowerupDuration ty
                 else pw \<in> set (activePowerups this))"
    using refresh_resets [OF d] by (simp add: kinds_addPowerup)
  from d r t f n show ?thesis by blast
qed

text \<open>
  The scenario of the specification, on a racer in mid-race that holds a boost and a
  shield, each collected one second ago: \<open>2000\<close> and \<open>4000\<close> ms remain. Collecting the boost
  again resets its entry to \<open>3000\<close> ms, collecting the shield again resets its entry to
  \<open>5000\<close> ms; no entry is added and the other entry keeps its time.
\<close>

lemma racing_potato_powerups:
  "activePowerups racing_potato =
     [\<lparr>ptype = ''boost'', timeRemaining = 2000\<rparr>, \<lparr>ptype = ''shield'', timeRemaining = 4000\<rparr>]"
  by (simp add: racing_potato_def addPowerup_def updatePowerups_def Potato_def Let_def
      getPowerupDuration_def CONFIG_POWERUPS_def SPEED_BOOST_def SHIELD_def OIL_SLICK_def)

theorem powerups_unique_by_kind_witness:
  "reachable racing_potato
   \<and> velocity racing_potato = \<lparr>vec_x = 3, vec_y = 4\<rparr> \<and> health racing_potato = 80
   \<and> kinds racing_potato = [''boost'', ''shield'']
   \<and> activePowerups (fst (addPowerup ''boost'' racing_potato))
       = [\<lparr>ptype = ''boost'', timeRemaining = 3000\<rparr>, \<lparr>ptype = ''shield'', timeRemaining = 4000\<rparr>]
   \<and> activePowerups (fst (addPowerup ''shield'' racing_potato))
       = [\<lparr>ptype = ''boost'', timeRemaining = 2000\<rparr>, \<lparr>ptype = ''shield'', timeRemaining = 5000\<rparr>]"
proof -
  have r: "reachable racing_potato"
    unfolding racing_potato_def
    by (rule reach_other [OF reach_update [OF reach_add [OF reach_add [OF reach_new]]]]) simp
  have b: "activePowerups (fst (addPowerup ''boost'' racing_potato))
       = [\<lparr>ptype = ''boost'', timeRemaining = 3000\<rparr>, \<lparr>ptype = ''shield'', timeRemaining = 4000\<rparr>]"
    by (simp add: racing_potato_powerups addPowerup_def Let_def
      getPowerupDuration_def CONFIG_POWERUPS_def SPEED_BOOST_def SHIELD_def OIL_SLICK_def)
  have s: "activePowerups (fst (addPowerup ''shield'' racing_potato))
       = [\<lparr>ptype = ''boost'', timeRemaining = 2000\<rparr>, \<lparr>ptype = ''shield'', timeRemaining = 5000\<rparr>]"
    by (simp add: racing_potato_powerups addPowerup_def Let_def
      getPowerupDuration_def CONFIG_POWERUPS_def SPEED_BOOST_def SHIELD_def OIL_SLICK_def)
  have v: "velocity racing_potato = \<lparr>vec_x = 3, vec_y = 4\<rparr>" "health racing_potato = 80"
    by (simp_all add: racing_potato_def)
  from b s v show ?thesis
    using powerups_unique_by_kind [OF r] r
    by (simp add: racing_potato_powerups kinds_def)
qed

text \<open>
  C10. After \<open>updatePowerups\<close> the collider radius is \<open>15\<close> when a size reduction is among
  the active power-ups and \<open>20\<close> otherwise, the width and height \<open>30 x 22.5\<close> or
  \<open>40 x 30\<close>. The constructor's radius is \<open>25\<close>, and the first update of a new potato
  replaces it by \<open>20\<close>.
\<close>

theorem updatePowerups_collider:
  "collider_radius (updatePowerups dt this)
     = (if list_ex (\<lambda>p. ptype p = pid SIZE_REDUCTION) (activePowerups (updatePowerups dt this))
        then 15 else 20)
   \<and> width (updatePowerups dt this)
     = (if list_ex (\<lambda>p. ptype p = pid SIZE_REDUCTION) (activePowerups (updatePowerups dt this))
        then 30 else 40)
   \<and> height (updatePowerups dt this)
     = (if list_ex (\<lambda>p. ptype p = pid SIZE_REDUCTION) (activePowerups (updatePowerups dt this))
        then 22.5 else 30)
   \<and> collider_radius (Potato px py ts) = 25
   \<and> collider_radius (updatePowerups dt (Potato px py ts)) = 20"
  by (simp add: updatePowerups_def Let_def Potato_def)

theorem updatePowerups_collider_witness:
  "collider_radius shrunk_potato = 25
   \<and> collider_radius (updatePowerups 1 shrunk_potato) = 15
   \<and> width (updatePowerups 1 shrunk_potato) = 30
   \<and> height (updatePowerups 1 shrunk_potato) = 22.5
   \<and> collider_radius (updatePowerups 5 shrunk_potato) = 20
   \<and> width (updatePowerups 5 shrunk_potato) = 40
   \<and> height (updatePowerups 5 shrunk_potato) = 30"
  using updatePowerups_collider [of 1 shrunk_potato] updatePowerups_collider [of 5 shrunk_potato]
  by (simp add: shrunk_potato_def addPowerup_def updatePowerups_def Potato_def Let_def
      getPowerupDuration_def CONFIG_POWERUPS_def SPEED_BOOST_def SHIELD_def GHOST_def OIL_SLICK_def
      SIZE_REDUCTION_def)

section \<open>Race progress\<close>

text \<open>Every call of \<open>updateRaceProgress\<close> is a step on the event that \<open>checkCheckpoint\<close> reports.\<close>

lemma updateRaceProgress_step:
  "updateRaceProgress trk t0 t1 t2 this
     = progressStep (length (checkpoints trk))
         \<lparr>ev_hit = checkCheckpoint trk (vec_x (position this)) (vec_y (position this))
                     (width this / 2),
          ev_t0 = t0, ev_t1 = t1, ev_t2 = t2\<rparr> this"
  by (simp add: updateRaceProgress_def progressStep_def)

lemma lap_completeLap [simp]: "lap (completeLap t1 t2 this) = lap this + 1"
  by (simp add: completeLap_def Let_def)

lemma checkpoint_completeLap [simp]: "checkpoint (completeLap t1 t2 this) = checkpoint this"
  by (simp add: completeLap_def Let_def)

lemma step_out_of_sequence: "\<not> inSequence n ev this \<Longrightarrow> progressStep n ev this = this"
  by (simp add: inSequence_def progressStep_def raceProgressOnHit_def split: option.splits)

lemma step_checkpoint:
  "checkpoint (progressStep n ev this)
     = (case ev_hit ev of
          None \<Rightarrow> checkpoint this
        | Some h \<Rightarrow> if inSequence n ev this then hit_index h else checkpoint this)"
  by (simp add: inSequence_def progressStep_def raceProgressOnHit_def Let_def split: option.splits)

lemma step_lap:
  "lap (progressStep n ev this)
     = (if inSequence n ev this \<and> checkpoint (progressStep n ev this) = 0
        then lap this + 1 else lap this)"
  by (simp add: inSequence_def progressStep_def raceProgressOnHit_def Let_def split: option.splits)

lemma step_lap_mono: "lap this \<le> lap (progressStep n ev this)"
  by (simp add: step_lap)

lemma run_lap_mono: "lap this \<le> lap (progressRun n evs this)"
proof (induction evs arbitrary: this)
  case Nil
  show ?case by simp
next
  case (Cons ev evs)
  have "lap this \<le> lap (progressStep n ev this)" by (rule step_lap_mono)
  also have "\<dots> \<le> lap (progressRun n evs (progressStep n ev this))" by (rule Cons.IH)
  finally show ?case by simp
qed

lemma step_same_lap:
  assumes c: "checkpoint this < n" and l: "lap (progressStep n ev this) = lap this"
  shows "(checkpoint (progressStep n ev this) = checkpoint this
          \<or> checkpoint (progressStep n ev this) = Suc (checkpoint this))
         \<and> checkpoint (progressStep n ev this) < n"
proof (cases "inSequence n ev this")
  case False
  then show ?thesis using c by (simp add: step_out_of_sequence)
next
  case True
  then obtain h where h: "ev_hit ev = Some h" "Some (hit_index h) = js_mod (checkpoint this + 1) n"
    by (auto simp: inSequence_def split: option.splits)
  from h(2) c have hm: "hit_index h = (checkpoint this + 1) mod n"
    by (simp add: js_mod_def split: if_splits)
  have cp: "checkpoint (progressStep n ev this) = hit_index h"
    using True h(1) by (simp add: step_checkpoint)
  from l True cp have "hit_index h \<noteq> 0" by (auto simp: step_lap split: if_splits)
  with hm c have "hit_index h = Suc (checkpoint this)" "Suc (checkpoint this) < n"
    by (auto simp: mod_Suc split: if_splits)
  with cp show ?thesis by simp
qed

lemma trace_head: "progressTrace n evs this = this # tl (progressTrace n evs this)"
  by (cases evs) simp_all

lemma trace_same_lap:
  assumes "checkpoint this < n" and "lap (progressRun n evs this) = lap this"
  shows "remdups_adj (map checkpoint (progressTrace n evs this))
           = [checkpoint this ..< Suc (checkpoint (progressRun n evs this))]
         \<and> checkpoint this \<le> checkpoint (progressRun n evs this)
         \<and> checkpoint (progressRun n evs this) < n"
  using assms
proof (induction evs arbitrary: this)
  case Nil
  then show ?case by simp
next
  case (Cons ev evs)
  let ?p1 = "progressStep n ev this"
  have "lap this \<le> lap ?p1" by (rule step_lap_mono)
  moreover have "lap ?p1 \<le> lap (progressRun n evs ?p1)" by (rule run_lap_mono)
  ultimately have l1: "lap ?p1 = lap this" and l2: "lap (progressRun n evs ?p1) = lap ?p1"
    using Cons.prems(2) by simp_all
  from step_same_lap [OF Cons.prems(1) l1]
  have c1: "checkpoint ?p1 = checkpoint this \<or> checkpoint ?p1 = Suc (checkpoint this)"
    and b1: "checkpoint ?p1 < n" by simp_all
  from Cons.IH [OF b1 l2]
  have ih: "remdups_adj (map checkpoint (progressTrace n evs ?p1))
              = [checkpoint ?p1 ..< Suc (checkpoint (progressRun n evs ?p1))]"
    and le: "checkpoint ?p1 \<le> checkpoint (progressRun n evs ?p1)"
    and lt: "checkpoint (progressRun n evs ?p1) < n" by simp_all
  obtain rest where tr: "progressTrace n evs ?p1 = ?p1 # rest"
    using trace_head by blast
  from c1 show ?case
  proof
    assume e: "checkpoint ?p1 = checkpoint this"
    then have "remdups_adj (map checkpoint (progressTrace n (ev # evs) this))
                 = remdups_adj (map checkpoint (progressTrace n evs ?p1))"
      by (simp add: tr)
    with ih e le lt show ?thesis by simp
  next
    assume e: "checkpoint ?p1 = Suc (checkpoint this)"
    then have "remdups_adj (map checkpoint (progressTrace n (ev # evs) this))
                 = checkpoint this # remdups_adj (map checkpoint (progressTrace n evs ?p1))"
      by (simp add: tr)
    also have "\<dots> = checkpoint this # [Suc (checkpoint this) ..< Suc (checkpoint (progressRun n evs ?p1))]"
      using ih e by simp
    also have "\<dots> = [checkpoint this ..< Suc (checkpoint (progressRun n evs ?p1))]"
      using le e by (simp add: upt_conv_Cons)
    finally show ?thesis using le lt e by simp
  qed
qed

lemma lap_increase_wraps:
  assumes "checkpoint this < n" and "lap this < lap (progressStep n ev this)"
  shows "Suc (checkpoint this) = n"
proof -
  from assms(2) have s: "inSequence n ev this" and z: "checkpoint (progressStep n ev this) = 0"
    by (auto simp: step_lap split: if_splits)
  from s obtain h where h: "ev_hit ev = Some h" "Some (hit_index h) = js_mod (checkpoint this + 1) n"
    by (auto simp: inSequence_def split: option.splits)
  with s z have "hit_index h = 0" by (simp add: step_checkpoint)
  with h(2) assms(1) show ?thesis
    by (auto simp: js_mod_def mod_Suc split: if_splits)
qed

lemma lap_cycle:
  assumes c0: "checkpoint start = 0"
    and same: "lap (progressRun n seg start) = lap start"
    and inc: "lap (progressRun n seg start) < lap (progressStep n ev (progressRun n seg start))"
  shows "remdups_adj (map checkpoint (progressTrace n seg start)) = [0..<n]"
proof -
  have "n \<noteq> 0"
  proof
    assume "n = 0"
    then have "\<not> inSequence n ev (progressRun n seg start)"
      by (simp add: inSequence_def js_mod_def split: option.splits)
    then show False using inc by (simp add: step_out_of_sequence)
  qed
  with c0 have b: "checkpoint start < n" by simp
  from trace_same_lap [OF b same] c0
  have tr: "remdups_adj (map checkpoint (progressTrace n seg start))
              = [0 ..< Suc (checkpoint (progressRun n seg start))]"
    and lt: "checkpoint (progressRun n seg start) < n" by simp_all
  from lap_increase_wraps [OF lt inc] tr show ?thesis by simp
qed

lemma run_snoc: "progressRun n (evs @ [ev]) this = progressStep n ev (progressRun n evs this)"
  by (induction evs arbitrary: this) simp_all

lemma start_checkpoint:
  assumes "pre = [] \<or> lap (progressRun n (butlast pre) (Potato px py ts))
                         < lap (progressRun n pre (Potato px py ts))"
  shows "checkpoint (progressRun n pre (Potato px py ts)) = 0"
proof (cases "pre = []")
  case True
  then show ?thesis by (simp add: Potato_def)
next
  case False
  then have pre: "pre = butlast pre @ [last pre]" by simp
  let ?q = "progressRun n (butlast pre) (Potato px py ts)"
  have r: "progressRun n pre (Potato px py ts) = progressStep n (last pre) ?q"
    using run_snoc [of n "butlast pre" "last pre"] pre by simp
  from assms False have "lap ?q < lap (progressStep n (last pre) ?q)" by (simp add: r)
  then have "checkpoint (progressStep n (last pre) ?q) = 0"
    by (auto simp: step_lap split: if_splits)
  then show ?thesis by (simp add: r)
qed

text \<open>
  C1. A step that is no hit, or a hit out of sequence, leaves the whole racer unchanged; a
  hit in sequence sets the checkpoint index to the hit index, which is
  \<open>(checkpoint + 1) mod n\<close>. The lap counter never decreases, and it increases (by one) only
  on a hit in sequence that sets the checkpoint index to \<open>0\<close>. For every run from a new
  potato: take the events \<open>seg\<close> between two lap increments, that is, after \<open>pre\<close>, which is
  empty or ends with a lap increment, and before the event \<open>ev\<close> that increments the lap,
  with no increment in \<open>seg\<close>; the checkpoint indices of the states over \<open>seg\<close>, repeats merged,
  are exactly \<open>0, 1, ..., n - 1\<close>.
\<close>

theorem checkpoint_sequence:
  "(\<not> inSequence n ev this \<longrightarrow> progressStep n ev this = this)
   \<and> (inSequence n ev this \<longrightarrow>
        (\<exists>h. ev_hit ev = Some h \<and> js_mod (checkpoint this + 1) n = Some (hit_index h)
           \<and> checkpoint (progressStep n ev this) = hit_index h))
   \<and> lap this \<le> lap (progressStep n ev this)
   \<and> (lap this < lap (progressStep n ev this) \<longrightarrow>
        inSequence n ev this \<and> checkpoint (progressStep n ev this) = 0
        \<and> lap (progressStep n ev this) = lap this + 1)
   \<and> (\<forall>pre seg.
        (pre = [] \<or> lap (progressRun n (butlast pre) (Potato px py ts))
                      < lap (progressRun n pre (Potato px py ts)))
        \<and> lap (progressRun n seg (progressRun n pre (Potato px py ts)))
            = lap (progressRun n pre (Potato px py ts))
        \<and> lap (progressRun n seg (progressRun n pre (Potato px py ts)))
            < lap (progressStep n ev (progressRun n seg (progressRun n pre (Potato px py ts))))
        \<longrightarrow> remdups_adj (map checkpoint
               (progressTrace n seg (progressRun n pre (Potato px py ts)))) = [0..<n])"
proof (intro conjI impI allI)
  assume "\<not> inSequence n ev this"
  then show "progressStep n ev this = this" by (rule step_out_of_sequence)
next
  assume "inSequence n ev this"
  then show "\<exists>h. ev_hit ev = Some h \<and> js_mod (checkpoint this + 1) n = Some (hit_index h)
           \<and> checkpoint (progressStep n ev this) = hit_index h"
    by (auto simp: step_checkpoint inSequence_def split: option.splits)
next
  show "lap this \<le> lap (progressStep n ev this)" by (rule step_lap_mono)
next
  assume a: "lap this < lap (progressStep n ev this)"
  then show "inSequence n ev this" by (auto simp: step_lap split: if_splits)
  from a show "checkpoint (progressStep n ev this) = 0" by (auto simp: step_lap split: if_splits)
  from a show "lap (progressStep n ev this) = lap this + 1" by (auto simp: step_lap split: if_splits)
next
  fix pre seg
  assume a: "(pre = [] \<or> lap (progressRun n (butlast pre) (Potato px py ts))
                      < lap (progressRun n pre (Potato px py ts)))
        \<and> lap (progressRun n seg (progressRun n pre (Potato px py ts)))
            = lap (progressRun n pre (Potato px py ts))
        \<and> lap (progressRun n seg (progressRun n pre (Potato px py ts)))
            < lap (progressStep n ev (progressRun n seg (progressRun n pre (Potato px py ts))))"
  then have a1: "pre = [] \<or> lap (progressRun n (butlast pre) (Potato px py ts))
                      < lap (progressRun n pre (Potato px py ts))"
    and a2: "lap (progressRun n seg (progressRun n pre (Potato px py ts)))
            = lap (progressRun n pre (Potato px py ts))"
    and a3: "lap (progressRun n seg (progressRun n pre (Potato px py ts)))
            < lap (progressStep n ev (progressRun n seg (progressRun n pre (Potato px py ts))))"
    by simp_all
  have c0: "checkpoint (progressRun n pre (Potato px py ts)) = 0"
    using a1 by (rule start_checkpoint)
  show "remdups_adj (map checkpoint
               (progressTrace n seg (progressRun n pre (Potato px py ts)))) = [0..<n]"
    using c0 a2 a3 by (rule lap_cycle)
qed

lemma inSequence_hitEvent:
  "inSequence n (hitEvent i) this \<longleftrightarrow> Some i = js_mod (checkpoint this + 1) n"
  by (simp add: inSequence_def hitEvent_def)

lemma ev_hit_hitEvent: "ev_hit (hitEvent i) = Some \<lparr>hit_index = i, hit_isFinishLine = (i = 0)\<rparr>"
  by (simp add: hitEvent_def)

lemma Potato_progress [simp]: "checkpoint (Potato px py ts) = 0" "lap (Potato px py ts) = 0"
  by (simp_all add: Potato_def)

text \<open>
  Four checkpoints: the racer passes \<open>1\<close> and \<open>2\<close>, then hits \<open>0\<close> out of order (ignored: no
  change, no lap), passes \<open>3\<close>, and the next hit of \<open>0\<close> starts lap \<open>1\<close>.
\<close>

theorem checkpoint_sequence_witness:
  "map checkpoint (progressTrace 4 [hitEvent 1, hitEvent 2, hitEvent 0, hitEvent 3] (Potato 0 0 5))
     = [0, 1, 2, 2, 3]
   \<and> map lap (progressTrace 4 [hitEvent 1, hitEvent 2, hitEvent 0, hitEvent 3] (Potato 0 0 5))
     = [0, 0, 0, 0, 0]
   \<and> lap (progressRun 4 [hitEvent 1, hitEvent 2, hitEvent 0, hitEvent 3, hitEvent 0] (Potato 0 0 5)) = 1
   \<and> remdups_adj (map checkpoint
         (progressTrace 4 [hitEvent 1, hitEvent 2, hitEvent 0, hitEvent 3] (Potato 0 0 5)))
       = [0..<4]
   \<and> \<not> inSequence 4 (hitEvent 0) (progressRun 4 [hitEvent 1, hitEvent 2] (Potato 0 0 5))
   \<and> progressStep 4 (hitEvent 0) (progressRun 4 [hitEvent 1, hitEvent 2] (Potato 0 0 5))
       = progressRun 4 [hitEvent 1, hitEvent 2] (Potato 0 0 5)
   \<and> inSequence 4 (hitEvent 3) (progressRun 4 [hitEvent 1, hitEvent 2] (Potato 0 0 5))
   \<and> checkpoint (progressStep 4 (hitEvent 3) (progressRun 4 [hitEvent 1, hitEvent 2] (Potato 0 0 5)))
       = 3"
proof -
  let ?seg = "[hitEvent 1, hitEvent 2, hitEvent 0, hitEvent 3]"
  let ?mid = "progressRun 4 [hitEvent 1, hitEvent 2] (Potato 0 0 5)"
  note ev = step_checkpoint step_lap inSequence_hitEvent ev_hit_hitEvent js_mod_def
  have tr: "map checkpoint (progressTrace 4 ?seg (Potato 0 0 5)) = [0, 1, 2, 2, 3]"
    by (simp add: ev)
  have lp: "map lap (progressTrace 4 ?seg (Potato 0 0 5)) = [0, 0, 0, 0, 0]"
    by (simp add: ev)
  have same: "lap (progressRun 4 ?seg (progressRun 4 [] (Potato 0 0 5)))
                = lap (progressRun 4 [] (Potato 0 0 5))"
    by (simp add: ev)
  have inc: "lap (progressRun 4 ?seg (progressRun 4 [] (Potato 0 0 5)))
        < lap (progressStep 4 (hitEvent 0) (progressRun 4 ?seg (progressRun 4 [] (Potato 0 0 5))))"
    by (simp add: ev)
  have fin: "lap (progressRun 4 (?seg @ [hitEvent 0]) (Potato 0 0 5)) = 1"
    by (simp add: ev)
  have out: "\<not> inSequence 4 (hitEvent 0) ?mid"
    by (simp add: ev)
  note T = checkpoint_sequence [of 4 "hitEvent 0" ?mid 0 0 5]
  from T out have stay: "progressStep 4 (hitEvent 0) ?mid = ?mid" by blast
  from T have "\<forall>pre seg.
        (pre = [] \<or> lap (progressRun 4 (butlast pre) (Potato 0 0 5))
                      < lap (progressRun 4 pre (Potato 0 0 5)))
        \<and> lap (progressRun 4 seg (progressRun 4 pre (Potato 0 0 5)))
            = lap (progressRun 4 pre (Potato 0 0 5))
        \<and> lap (progressRun 4 seg (progressRun 4 pre (Potato 0 0 5)))
            < lap (progressStep 4 (hitEvent 0) (progressRun 4 seg (progressRun 4 pre (Potato 0 0 5))))
        \<longrightarrow> remdups_adj (map checkpoint
               (progressTrace 4 seg (progressRun 4 pre (Potato 0 0 5)))) = [0..<4]"
    by blast
  from this [rule_format, of "[]" ?seg] same inc
  have cyc: "remdups_adj (map checkpoint (progressTrace 4 ?seg (Potato 0 0 5))) = [0..<4]"
    by simp
  have ins: "inSequence 4 (hitEvent 3) ?mid"
    by (simp add: ev)
  from checkpoint_sequence [of 4 "hitEvent 3" ?mid 0 0 5] ins
  have adv: "checkpoint (progressStep 4 (hitEvent 3) ?mid) = 3"
    by (auto simp: ev_hit_hitEvent)
  from tr lp fin cyc out stay ins adv show ?thesis by simp
qed

section \<open>Friction\<close>

lemma Sprite_update_velocity:
  "active this \<Longrightarrow>
   velocity (Sprite_update deltaTime this)
     = scale_vec (js_default (friction this) 0.98)
         \<lparr>vec_x = vec_x (velocity this) + vec_x (acceleration this) * js_default deltaTime (1 / 60),
          vec_y = vec_y (velocity this) + vec_y (acceleration this) * js_default deltaTime (1 / 60)\<rparr>"
  by (simp add: Sprite_update_def Let_def scale_vec_def)

lemma updatePhysics_velocity:
  assumes "friction object = Some f" and "f < 1" and "dt \<noteq> 0"
  shows "map_option velocity (updatePhysics object dt)
     = Some (scale_vec ((1 - f) powr dt)
         \<lparr>vec_x = vec_x (velocity object) + vec_x (acceleration object) * dt,
          vec_y = vec_y (velocity object) + vec_y (acceleration object) * dt\<rparr>)"
  using assms by (simp add: updatePhysics_def Let_def js_pow_def scale_vec_def)

lemma asphalt_body_fields:
  "active asphalt_body" "friction asphalt_body = Some (15 / 100)"
  "velocity asphalt_body = \<lparr>vec_x = 1, vec_y = 0\<rparr>"
  "acceleration asphalt_body = \<lparr>vec_x = 0, vec_y = 0\<rparr>"
  by (simp_all add: asphalt_body_def example_body_def)

text \<open>
  C2. The claim asks for the velocity to be scaled by \<open>(1 - f) ^ dt\<close> in every body update.
  \<open>Physics.updatePhysics\<close> does that, but the update that every sprite and racer runs,
  \<open>Sprite.update\<close>, multiplies the velocity by \<open>this.friction\<close> itself, once per call and
  whatever the time step: a racer on asphalt (\<open>friction = 0.15\<close>) moving at \<open>(1, 0)\<close> keeps
  \<open>0.15\<close> of its velocity after a step of \<open>1/60\<close> s, and the same after a step of \<open>1\<close> s,
  where the exponential form keeps \<open>0.85 ^ (1/60)\<close>, which is larger.
\<close>

theorem Sprite_update_friction_per_tick:
  "velocity (Sprite_update (Some (1 / 60)) asphalt_body) = \<lparr>vec_x = 15 / 100, vec_y = 0\<rparr>
   \<and> velocity (Sprite_update (Some 1) asphalt_body) = \<lparr>vec_x = 15 / 100, vec_y = 0\<rparr>
   \<and> map_option velocity (updatePhysics asphalt_body (1 / 60))
       = Some \<lparr>vec_x = (85 / 100) powr (1 / 60), vec_y = 0\<rparr>
   \<and> (15 / 100 :: real) < (85 / 100) powr (1 / 60)"
proof -
  have "(85 / 100 :: real) powr 1 \<le> (85 / 100) powr (1 / 60)"
    by (rule powr_mono') simp_all
  then have gt: "(15 / 100 :: real) < (85 / 100) powr (1 / 60)" by simp
  have up: "map_option velocity (updatePhysics asphalt_body (1 / 60))
       = Some \<lparr>vec_x = (85 / 100) powr (1 / 60), vec_y = 0\<rparr>"
    using updatePhysics_velocity [of asphalt_body "15 / 100" "1 / 60"]
    by (simp add: asphalt_body_fields scale_vec_def)
  have s1: "velocity (Sprite_update (Some (1 / 60)) asphalt_body) = \<lparr>vec_x = 15 / 100, vec_y = 0\<rparr>"
    by (simp add: Sprite_update_velocity asphalt_body_fields scale_vec_def js_default_def)
  have s2: "velocity (Sprite_update (Some 1) asphalt_body) = \<lparr>vec_x = 15 / 100, vec_y = 0\<rparr>"
    by (simp add: Sprite_update_velocity asphalt_body_fields scale_vec_def js_default_def)
  from s1 s2 up gt show ?thesis by simp
qed

end
